theory Spec2Isabelle
  imports Complex_Main
begin

section \<open>Numbers and frame rows\<close>

text \<open>
  The numeric pipeline of \<^verbatim>\<open>src/src/App.tsx\<close> works on JavaScript numbers. They are
  modelled as reals, so rounding is not part of the model. Where the code reads an array
  beyond its end it obtains \<^verbatim>\<open>undefined\<close>, which turns into \<^verbatim>\<open>NaN\<close> in arithmetic
  and makes every comparison false; the type \<open>num\<close> adds that value to the reals.
\<close>

datatype num = Num real | NaN

fun num_lt :: "num \<Rightarrow> num \<Rightarrow> bool" where
  "num_lt (Num a) (Num b) = (a < b)"
| "num_lt _ _ = False"

definition num_gt :: "num \<Rightarrow> num \<Rightarrow> bool" where
  "num_gt a b = num_lt b a"

fun num_add :: "num \<Rightarrow> num \<Rightarrow> num" where
  "num_add (Num a) (Num b) = Num (a + b)"
| "num_add _ _ = NaN"

fun num_sub :: "num \<Rightarrow> num \<Rightarrow> num" where
  "num_sub (Num a) (Num b) = Num (a - b)"
| "num_sub _ _ = NaN"

fun num_mul :: "num \<Rightarrow> num \<Rightarrow> num" where
  "num_mul (Num a) (Num b) = Num (a * b)"
| "num_mul _ _ = NaN"

text \<open>Division is only used by the code with a divisor that is NaN or a nonzero number.\<close>

fun num_div :: "num \<Rightarrow> num \<Rightarrow> num" where
  "num_div (Num a) (Num b) = (if b = 0 then NaN else Num (a / b))"
| "num_div _ _ = NaN"

fun num_sqrt :: "num \<Rightarrow> num" where
  "num_sqrt (Num a) = (if a < 0 then NaN else Num (sqrt a))"
| "num_sqrt NaN = NaN"

text \<open>\<^verbatim>\<open>xs[i]\<close> where the index may lie beyond the end of the array.\<close>

definition item :: "num list \<Rightarrow> nat \<Rightarrow> num" where
  "item xs i = (if i < length xs then xs ! i else NaN)"

text \<open>
  One element of \<^verbatim>\<open>summary.signals.areas\<close>: the five areas are numbers, the three
  lengths are \<^verbatim>\<open>number | null\<close>.
\<close>

record area =
  pharynx :: real
  vestibule :: real
  bolus :: real
  bolus_pharynx_overlap :: real
  bolus_vestibule_overlap :: real
  c2c4_length :: "real option"
  hyoid_c4_distance :: "real option"
  ues_length :: "real option"

text \<open>
  One element of \<^verbatim>\<open>processedData\<close>, with the fields \<^verbatim>\<open>processAdvancedData\<close> writes.
  \<open>None\<close> is \<^verbatim>\<open>null\<close>. \<^verbatim>\<open>extractCycleParameters\<close> also reads \<^verbatim>\<open>cycleNumber\<close>,
  \<^verbatim>\<open>startFrame\<close> and \<^verbatim>\<open>endFrame\<close> from these rows; there \<open>None\<close> is \<^verbatim>\<open>undefined\<close>.
\<close>

record row =
  frame :: nat
  smoothed_bolus_pharynx_overlap :: real
  smoothed_bolus_vestibule_overlap :: real
  smoothed_pharynx :: real
  smoothed_vestibule :: real
  smoothed_bolus :: real
  normalized_bolus_pharynx_overlap :: "real option"
  normalized_bolus_vestibule_overlap :: "real option"
  normalized_pharynx :: "real option"
  normalized_vestibule :: "real option"
  normalized_bolus :: "real option"
  normalized_hyoid_c4_distance :: "num option"
  normalized_ues_length :: "num option"
  zscore_bolus_pharynx_overlap :: "real option"
  zscore_bolus_vestibule_overlap :: "real option"
  zscore_pharynx :: "real option"
  zscore_vestibule :: "real option"
  zscore_bolus :: "real option"
  zscore_hyoid_c4_distance :: "num option"
  zscore_ues_length :: "num option"
  row_cycleNumber :: "nat option"
  row_startFrame :: "int option"
  row_endFrame :: "int option"

text \<open>\<^verbatim>\<open>xs.map(f).filter(val => val !== null)\<close>\<close>

definition nonNull :: "('a \<Rightarrow> 'b option) \<Rightarrow> 'a list \<Rightarrow> 'b list" where
  "nonNull f xs = List.map_filter f xs"

text \<open>\<^verbatim>\<open>processedData.slice(startFrame, endFrame + 1)\<close> for frames that are not negative.\<close>

definition slice :: "nat \<Rightarrow> nat \<Rightarrow> 'a list \<Rightarrow> 'a list" where
  "slice startFrame endFrame xs = take (endFrame + 1 - startFrame) (drop startFrame xs)"

section \<open>Savitzky-Golay smoothing\<close>

definition weight :: "nat \<Rightarrow> int \<Rightarrow> real" where
  "weight halfWindow j = exp (- real_of_int (j * j) / real (2 * halfWindow * halfWindow))"

definition savitzkyGolayFilter :: "real list \<Rightarrow> nat \<Rightarrow> real list" where
  "savitzkyGolayFilter data windowSize =
     (if length data < windowSize then data
      else
        let halfWindow = windowSize div 2
        in map (\<lambda>i.
             let js = filter (\<lambda>j. 0 \<le> int i + j \<and> int i + j < int (length data))
                        [- int halfWindow .. int halfWindow];
                 sum = sum_list (map (\<lambda>j. data ! nat (int i + j) * weight halfWindow j) js);
                 weightSum = sum_list (map (weight halfWindow) js)
             in sum / weightSum) [0 ..< length data])"

section \<open>Clinical parameters of one cycle\<close>

subsection \<open>Pharyngeal contraction ratio\<close>

record pcr_part =
  PCR :: num
  PCR_p95 :: real
  PCR_p5 :: real
  PCR_adjusted_p95 :: real
  PCR_adjusted_p5 :: real
  PCR_frames :: nat
  PCR_hasNegativeValues :: bool

definition adjustPercentiles :: "real list \<Rightarrow> real \<Rightarrow> real \<Rightarrow> real \<times> real" where
  "adjustPercentiles pharynxZScore p95Value p5Value =
     (if p95Value < 0 \<and> p5Value < 0 then (\<bar>p95Value\<bar>, \<bar>p5Value\<bar>)
      else if p95Value < 0 \<or> p5Value < 0 then
        (let minValue = min_list pharynxZScore;
             offset = \<bar>minValue\<bar> + 0.1
         in (p95Value + offset, p5Value + offset))
      else (p95Value, p5Value))"

text \<open>
  The percentile indices \<^verbatim>\<open>Math.floor(length * 0.95)\<close> and \<^verbatim>\<open>Math.floor(length * 0.05)\<close>
  are taken in the reals (nearest rank, no interpolation). In the quotient
  \<^verbatim>\<open>adjustedP5 / adjustedP95\<close> a zero divisor is only reached with a zero dividend (lemma
  \<open>computePCR_zero_divisor\<close> below), where JavaScript yields NaN.
\<close>

definition computePCR :: "real list \<Rightarrow> pcr_part" where
  "computePCR pharynxZScore =
     (let sortedPharynx = sort pharynxZScore;
          p95Index = nat \<lfloor>real (length sortedPharynx) * 0.95\<rfloor>;
          p5Index = nat \<lfloor>real (length sortedPharynx) * 0.05\<rfloor>;
          p95Value = sortedPharynx ! p95Index;
          p5Value = sortedPharynx ! p5Index;
          (adjustedP95, adjustedP5) = adjustPercentiles pharynxZScore p95Value p5Value
      in \<lparr> PCR = (if adjustedP95 = 0 then NaN else Num (adjustedP5 / adjustedP95)),
           PCR_p95 = p95Value,
           PCR_p5 = p5Value,
           PCR_adjusted_p95 = adjustedP95,
           PCR_adjusted_p5 = adjustedP5,
           PCR_frames = length pharynxZScore,
           PCR_hasNegativeValues = (p95Value < 0 \<or> p5Value < 0) \<rparr>)"

subsection \<open>Aspiration risk\<close>

record overlapDetail =
  detail_frame :: nat
  normalizedOverlap :: real
  normalizedVestibule :: real
  adjustedOverlap :: real
  adjustedVestibule :: real
  ratio :: real

record aspiration_part =
  aspirationRisk :: "bool option"
  maxOverlapRatio :: "real option"
  overlapRatioDetails :: "overlapDetail list option"

definition adjustOperands :: "real \<Rightarrow> real \<Rightarrow> real \<times> real" where
  "adjustOperands overlap vestibuleArea =
     (if \<bar>vestibuleArea\<bar> < 0.01 then (overlap, 0.01)
      else if \<bar>overlap\<bar> < 0.01 then (0.01, vestibuleArea)
      else (overlap, vestibuleArea))"

fun overlapLoop :: "nat \<Rightarrow> nat \<Rightarrow> row list \<Rightarrow> overlapDetail list" where
  "overlapLoop startFrame i [] = []"
| "overlapLoop startFrame i (r # rs) =
     (case (normalized_bolus_vestibule_overlap r, normalized_vestibule r) of
        (Some overlap, Some vestibuleArea) \<Rightarrow>
          (let (adjOverlap, adjVestibule) = adjustOperands overlap vestibuleArea
           in \<lparr> detail_frame = startFrame + i,
                normalizedOverlap = overlap,
                normalizedVestibule = vestibuleArea,
                adjustedOverlap = adjOverlap,
                adjustedVestibule = adjVestibule,
                ratio = adjOverlap / adjVestibule \<rparr> # overlapLoop startFrame (i + 1) rs)
      | _ \<Rightarrow> overlapLoop startFrame (i + 1) rs)"

text \<open>\<^verbatim>\<open>Math.max(...xs)\<close> for a list that is not empty.\<close>

fun max_list :: "real list \<Rightarrow> real" where
  "max_list [] = 0"
| "max_list (x # xs) = fold max xs x"

definition aspirationThreshold :: real where
  "aspirationThreshold = 0.2"

definition noAspiration :: aspiration_part where
  "noAspiration = \<lparr> aspirationRisk = None, maxOverlapRatio = None, overlapRatioDetails = None \<rparr>"

definition computeAspiration :: "nat \<Rightarrow> row list \<Rightarrow> aspiration_part" where
  "computeAspiration startFrame cycleData =
     (let bolusVestibuleOverlap = nonNull normalized_bolus_vestibule_overlap cycleData;
          vestibule = nonNull normalized_vestibule cycleData
      in if length bolusVestibuleOverlap > 0 \<and> length vestibule > 0 then
           (let overlapDetails = overlapLoop startFrame 0 cycleData;
                overlapRatios = map ratio overlapDetails
            in if length overlapRatios > 0 then
                 \<lparr> aspirationRisk = Some (max_list overlapRatios \<ge> aspirationThreshold),
                   maxOverlapRatio = Some (max_list overlapRatios),
                   overlapRatioDetails = Some overlapDetails \<rparr>
               else noAspiration)
         else noAspiration)"

subsection \<open>Search limits taken from neighbouring cycles\<close>

text \<open>\<^verbatim>\<open>xs.findIndex(p)\<close>, with \<open>None\<close> for the result \<^verbatim>\<open>-1\<close>.\<close>

fun findIndex :: "('a \<Rightarrow> bool) \<Rightarrow> 'a list \<Rightarrow> nat option" where
  "findIndex p [] = None"
| "findIndex p (x # xs) = (if p x then Some 0 else map_option Suc (findIndex p xs))"

text \<open>
  The block that widens the search range is written three times in the source (for HYB,
  for UESO/UESC and for LVC/LVCoff) with the same text; it is modelled once.
  \<open>searchStartFrame\<close> is the backward limit and \<open>searchEndFrame\<close> the forward limit,
  whose initial value differs between the callers and is passed as \<open>initialEnd\<close>.
\<close>

definition allCycles :: "row list \<Rightarrow> row list" where
  "allCycles processedData = filter (\<lambda>r. row_cycleNumber r \<noteq> None) processedData"

definition searchStartFrame :: "row list \<Rightarrow> nat \<Rightarrow> nat \<Rightarrow> int" where
  "searchStartFrame processedData cycleNumber startFrame =
     (case findIndex (\<lambda>r. row_cycleNumber r = Some cycleNumber) (allCycles processedData) of
        None \<Rightarrow> int startFrame
      | Some cycleIndex \<Rightarrow>
          if cycleIndex > 0 then
            (case row_endFrame (allCycles processedData ! (cycleIndex - 1)) of
               Some prevEnd \<Rightarrow> max 0 prevEnd
             | None \<Rightarrow> int startFrame)
          else int startFrame)"

definition searchEndFrame :: "row list \<Rightarrow> nat \<Rightarrow> int \<Rightarrow> int" where
  "searchEndFrame processedData cycleNumber initialEnd =
     (case findIndex (\<lambda>r. row_cycleNumber r = Some cycleNumber) (allCycles processedData) of
        None \<Rightarrow> initialEnd
      | Some cycleIndex \<Rightarrow>
          if int cycleIndex < int (length (allCycles processedData)) - 1 then
            (case row_startFrame (allCycles processedData ! (cycleIndex + 1)) of
               Some nextStart \<Rightarrow> nextStart
             | None \<Rightarrow> initialEnd)
          else initialEnd)"

text \<open>\<^verbatim>\<open>Math.max(0, searchStartFrame - startFrame)\<close>\<close>

definition searchStartInCycle :: "int \<Rightarrow> nat \<Rightarrow> nat" where
  "searchStartInCycle searchStart startFrame = nat (max 0 (searchStart - int startFrame))"

text \<open>
  \<^verbatim>\<open>Math.min(xs.length - 1, searchEndFrame - startFrame)\<close>, as the exclusive upper end of
  the index range \<^verbatim>\<open>i <= searchEndInCycle\<close>.
\<close>

definition searchEndInCycle :: "nat \<Rightarrow> int \<Rightarrow> nat \<Rightarrow> int" where
  "searchEndInCycle len searchEnd startFrame = min (int len - 1) (searchEnd - int startFrame)"

definition upto_incl :: "nat \<Rightarrow> int \<Rightarrow> nat list" where
  "upto_incl lo hi = [lo ..< nat (hi + 1)]"

text \<open>The indices of \<^verbatim>\<open>for (let i = hi - 1; i >= lo; i--)\<close>.\<close>

definition downfrom :: "nat \<Rightarrow> nat \<Rightarrow> nat list" where
  "downfrom hi lo = rev [lo ..< hi]"

subsection \<open>Peaks, slopes and the local-extremum fallbacks\<close>

definition peakOf :: "num list \<Rightarrow> num \<times> nat" where
  "peakOf xs =
     fold (\<lambda>i (maxValue, maxIndex).
             if num_gt (xs ! i) maxValue then (xs ! i, i) else (maxValue, maxIndex))
          [1 ..< length xs] (xs ! 0, 0)"

definition differences :: "num list \<Rightarrow> num list" where
  "differences xs = map (\<lambda>i. num_sub (xs ! i) (xs ! (i - 1))) [1 ..< length xs]"

text \<open>
  The fallback loops leave at a \<^verbatim>\<open>break\<close>; they are recursions over the remaining
  indices. \<open>threshold\<close> is 0.05 for the hyoid and UES series and 0.15 for the vestibule.
\<close>

fun localMinBackward :: "num list \<Rightarrow> real \<Rightarrow> num \<times> nat \<Rightarrow> nat list \<Rightarrow> num \<times> nat" where
  "localMinBackward xs threshold acc [] = acc"
| "localMinBackward xs threshold (localMin, localMinIndex) (i # is) =
     (let acc = (if num_lt (item xs i) localMin then (item xs i, i)
                 else (localMin, localMinIndex))
      in if i > 0 \<and> num_gt (num_sub (item xs i) (item xs (i - 1))) (Num threshold) then acc
         else localMinBackward xs threshold acc is)"

fun localMinForward :: "num list \<Rightarrow> real \<Rightarrow> num \<times> nat \<Rightarrow> nat list \<Rightarrow> num \<times> nat" where
  "localMinForward xs threshold acc [] = acc"
| "localMinForward xs threshold (localMin, localMinIndex) (i # is) =
     (let acc = (if num_lt (item xs i) localMin then (item xs i, i)
                 else (localMin, localMinIndex))
      in if int i < int (length xs) - 1
            \<and> num_gt (num_sub (item xs (i + 1)) (item xs i)) (Num threshold) then acc
         else localMinForward xs threshold acc is)"

fun localMaxBackward :: "num list \<Rightarrow> real \<Rightarrow> num \<times> nat \<Rightarrow> nat list \<Rightarrow> num \<times> nat" where
  "localMaxBackward xs threshold acc [] = acc"
| "localMaxBackward xs threshold (localMax, localMaxIndex) (i # is) =
     (let acc = (if num_gt (item xs i) localMax then (item xs i, i)
                 else (localMax, localMaxIndex))
      in if i > 0 \<and> num_lt (num_sub (item xs (i + 1)) (item xs i)) (Num (- threshold)) then acc
         else localMaxBackward xs threshold acc is)"

text \<open>
  The valley before the peak, for HYB and UESO: the nearest index at which the slope
  turns from negative to positive, else the local minimum.
\<close>

definition valleyBefore :: "num list \<Rightarrow> nat \<Rightarrow> num \<Rightarrow> nat \<Rightarrow> num \<times> nat" where
  "valleyBefore xs startInCycle maxValue maxIndex =
     (let diffData = differences xs
      in case find (\<lambda>i. i > 0 \<and> i - 1 < length diffData
                        \<and> num_lt (item diffData (i - 1)) (Num 0)
                        \<and> num_gt (item diffData i) (Num 0))
                   (downfrom maxIndex startInCycle) of
           Some i \<Rightarrow> (item xs i, i)
         | None \<Rightarrow> localMinBackward xs 0.05 (maxValue, maxIndex) (downfrom maxIndex startInCycle))"

text \<open>The valley after the peak, for UESC.\<close>

definition valleyAfter :: "num list \<Rightarrow> int \<Rightarrow> num \<Rightarrow> nat \<Rightarrow> num \<times> nat" where
  "valleyAfter xs endInCycle maxValue maxIndex =
     (let diffData = differences xs
      in case find (\<lambda>i. i < length diffData
                        \<and> num_gt (item diffData (i - 1)) (Num 0)
                        \<and> num_lt (item diffData i) (Num 0))
                   (upto_incl (maxIndex + 1) endInCycle) of
           Some i \<Rightarrow> (item xs i, i)
         | None \<Rightarrow> localMinForward xs 0.05 (maxValue, maxIndex) (upto_incl (maxIndex + 1) endInCycle))"

subsection \<open>HYB\<close>

record hyb_part =
  HYB :: nat
  HYB_peakFrame :: nat
  HYB_valleyFrame :: nat
  HYB_peakValue :: num
  HYB_valleyValue :: num

definition computeHYB :: "nat \<Rightarrow> row list \<Rightarrow> nat \<Rightarrow> row list \<Rightarrow> hyb_part option" where
  "computeHYB startFrame processedData cycleNumber cycleData =
     (let hyoidC4Distance = nonNull zscore_hyoid_c4_distance cycleData
      in if length hyoidC4Distance > 0 then
           (let (maxValue, maxIndex) = peakOf hyoidC4Distance;
                searchStart = searchStartFrame processedData cycleNumber startFrame;
                startInCycle = searchStartInCycle searchStart startFrame;
                (valleyValue, valleyIndex) =
                   valleyBefore hyoidC4Distance startInCycle maxValue maxIndex
            in Some \<lparr> HYB = startFrame + valleyIndex,
                      HYB_peakFrame = startFrame + maxIndex,
                      HYB_valleyFrame = startFrame + valleyIndex,
                      HYB_peakValue = maxValue,
                      HYB_valleyValue = valleyValue \<rparr>)
         else None)"

subsection \<open>UESO and UESC\<close>

record ues_part =
  UESO :: nat
  UESC :: nat
  UES_peakFrame :: nat
  UES_peakValue :: num
  UES_beforeValleyFrame :: nat
  UES_afterValleyFrame :: nat
  UES_beforeValleyValue :: num
  UES_afterValleyValue :: num

definition computeUES :: "nat \<Rightarrow> row list \<Rightarrow> nat \<Rightarrow> row list \<Rightarrow> ues_part option" where
  "computeUES startFrame processedData cycleNumber cycleData =
     (let uesLength = nonNull zscore_ues_length cycleData
      in if length uesLength > 0 then
           (let (maxValue, maxIndex) = peakOf uesLength;
                searchStart = searchStartFrame processedData cycleNumber startFrame;
                searchEnd = searchEndFrame processedData cycleNumber
                              (int startFrame + int (length uesLength) - 1);
                startInCycle = searchStartInCycle searchStart startFrame;
                (beforeValleyValue, beforeValleyIndex) =
                   valleyBefore uesLength startInCycle maxValue maxIndex;
                endInCycle = searchEndInCycle (length uesLength) searchEnd startFrame;
                (afterValleyValue, afterValleyIndex) =
                   valleyAfter uesLength endInCycle maxValue maxIndex
            in Some \<lparr> UESO = startFrame + beforeValleyIndex,
                      UESC = startFrame + afterValleyIndex,
                      UES_peakFrame = startFrame + maxIndex,
                      UES_peakValue = maxValue,
                      UES_beforeValleyFrame = startFrame + beforeValleyIndex,
                      UES_afterValleyFrame = startFrame + afterValleyIndex,
                      UES_beforeValleyValue = beforeValleyValue,
                      UES_afterValleyValue = afterValleyValue \<rparr>)
         else None)"

subsection \<open>LVC and LVCoff\<close>

record lvc_part =
  LVC :: nat
  LVCoff :: nat
  LVC_peakFrame :: nat
  LVC_peakValue :: num
  LVC_valley1Frame :: nat
  LVC_valley2Frame :: nat
  LVC_valley1Value :: num
  LVC_valley2Value :: num

text \<open>The lowest value of the search range, starting from the first sample.\<close>

definition valley1Of :: "num list \<Rightarrow> nat \<Rightarrow> int \<Rightarrow> num \<times> nat" where
  "valley1Of xs startInCycle endInCycle =
     fold (\<lambda>i (valley1Value, valley1Index).
             if num_lt (item xs i) valley1Value then (item xs i, i)
             else (valley1Value, valley1Index))
          (upto_incl startInCycle endInCycle) (item xs 0, 0)"

text \<open>
  The peak before valley 1 (LVC): second differences first, then first differences,
  then the local maximum.
\<close>

definition lvcPeak :: "num list \<Rightarrow> nat \<Rightarrow> num \<Rightarrow> nat \<Rightarrow> num \<times> nat" where
  "lvcPeak xs startInCycle valley1Value valley1Index =
     (let diffData = differences xs;
          secondDiffData = differences diffData;
          range = downfrom valley1Index startInCycle
      in case find (\<lambda>i. i > 1 \<and> i - 2 < length secondDiffData
                        \<and> num_gt (item secondDiffData (i - 2)) (Num 0.1)
                        \<and> num_lt (item secondDiffData (i - 1)) (Num (- 0.1))) range of
           Some i \<Rightarrow> (item xs i, i)
         | None \<Rightarrow>
             (case find (\<lambda>i. i > 0 \<and> i - 1 < length diffData
                             \<and> num_gt (item diffData (i - 1)) (Num 0.15)
                             \<and> num_lt (item diffData i) (Num (- 0.15))) range of
                Some i \<Rightarrow> (item xs i, i)
              | None \<Rightarrow> localMaxBackward xs 0.15 (valley1Value, valley1Index) range))"

text \<open>The valley after valley 1 (LVCoff), with the same three strategies.\<close>

definition lvcValley2 :: "num list \<Rightarrow> int \<Rightarrow> num \<Rightarrow> nat \<Rightarrow> num \<times> nat" where
  "lvcValley2 xs endInCycle valley1Value valley1Index =
     (let diffData = differences xs;
          secondDiffData = differences diffData;
          range = upto_incl (valley1Index + 1) endInCycle
      in case find (\<lambda>i. i > 1 \<and> i - 2 < length secondDiffData
                        \<and> num_lt (item secondDiffData (i - 2)) (Num (- 0.1))
                        \<and> num_gt (item secondDiffData (i - 1)) (Num 0.1)) range of
           Some i \<Rightarrow> (item xs i, i)
         | None \<Rightarrow>
             (case find (\<lambda>i. i > 0 \<and> i - 1 < length diffData
                             \<and> num_lt (item diffData (i - 1)) (Num (- 0.15))
                             \<and> num_gt (item diffData i) (Num 0.15)) range of
                Some i \<Rightarrow> (item xs i, i)
              | None \<Rightarrow> localMinForward xs 0.15 (valley1Value, valley1Index) range))"

text \<open>
  The vestibule series is in the area group, whose standardized values are numbers; the
  initial forward limit is taken from the length of the normalized vestibule series
  (\<^verbatim>\<open>vestibule\<close>), as in the source.
\<close>

definition computeLVC :: "nat \<Rightarrow> row list \<Rightarrow> nat \<Rightarrow> row list \<Rightarrow> lvc_part option" where
  "computeLVC startFrame processedData cycleNumber cycleData =
     (let vestibuleData = map Num (nonNull zscore_vestibule cycleData);
          vestibule = nonNull normalized_vestibule cycleData
      in if length vestibuleData > 0 then
           (let searchStart = searchStartFrame processedData cycleNumber startFrame;
                searchEnd = searchEndFrame processedData cycleNumber
                              (int startFrame + int (length vestibule) - 1);
                startInCycle = searchStartInCycle searchStart startFrame;
                endInCycle = searchEndInCycle (length vestibuleData) searchEnd startFrame;
                (valley1Value, valley1Index) = valley1Of vestibuleData startInCycle endInCycle;
                (peakValue, peakIndex) =
                   lvcPeak vestibuleData startInCycle valley1Value valley1Index;
                (valley2Value, valley2Index) =
                   lvcValley2 vestibuleData endInCycle valley1Value valley1Index
            in Some \<lparr> LVC = startFrame + peakIndex,
                      LVCoff = startFrame + valley2Index,
                      LVC_peakFrame = startFrame + peakIndex,
                      LVC_peakValue = peakValue,
                      LVC_valley1Frame = startFrame + valley1Index,
                      LVC_valley2Frame = startFrame + valley2Index,
                      LVC_valley1Value = valley1Value,
                      LVC_valley2Value = valley2Value \<rparr>)
         else None)"

subsection \<open>extractCycleParameters\<close>

record parameters =
  pcr :: pcr_part
  aspiration :: aspiration_part
  hyb :: "hyb_part option"
  ues :: "ues_part option"
  lvc :: "lvc_part option"

text \<open>
  The function has two return statements: the object \<^verbatim>\<open>{ PCR: null }\<close> when the cycle has
  no standardized pharynx sample, and the full object otherwise. In the full object a
  group of landmark fields that was not computed is \<^verbatim>\<open>null\<close> (\<open>None\<close>).
\<close>

datatype extracted = PCR_null | Parameters parameters

definition extractCycleParameters :: "nat \<Rightarrow> nat \<Rightarrow> row list \<Rightarrow> nat \<Rightarrow> extracted" where
  "extractCycleParameters startFrame endFrame processedData cycleNumber =
     (let cycleData = slice startFrame endFrame processedData;
          pharynxZScore = nonNull zscore_pharynx cycleData
      in if length pharynxZScore = 0 then PCR_null
         else Parameters
           \<lparr> pcr = computePCR pharynxZScore,
             aspiration = computeAspiration startFrame cycleData,
             hyb = computeHYB startFrame processedData cycleNumber cycleData,
             ues = computeUES startFrame processedData cycleNumber cycleData,
             lvc = computeLVC startFrame processedData cycleNumber cycleData \<rparr>)"

section \<open>Cycle segmentation\<close>

text \<open>
  A detected cycle. The fields \<^verbatim>\<open>startTime\<close>, \<^verbatim>\<open>endTime\<close> and \<^verbatim>\<open>durationTime\<close> are the
  frame values divided by the frame rate; they are left out, and with them the parameter
  \<^verbatim>\<open>fps\<close>. The spread \<^verbatim>\<open>...cycleParameters\<close> is the field \<open>params\<close>.
\<close>

record cycle =
  cycleNumber :: nat
  startFrame :: nat
  peakFrame :: nat
  endFrame :: nat
  peakValue :: real
  duration :: int
  params :: extracted

record analysis =
  cycles :: "cycle list"
  totalSwallows :: nat
  smoothedData :: "real list"
  diffData :: "real list"
  peaks :: "nat list"

text \<open>
  \<^verbatim>\<open>detectSwallowingCycles\<close> returns the bare array \<^verbatim>\<open>[]\<close> for a series that is too
  short and the analysis object otherwise. The driver series is a \<^verbatim>\<open>number[]\<close>; an entry
  that is \<^verbatim>\<open>null\<close> at run time acts as 0 in the products of the smoothing filter and is
  written as 0 here.
\<close>

datatype detected = Empty_array | Analysis analysis

definition cyclesOf :: "detected \<Rightarrow> cycle list" where
  "cyclesOf r = (case r of Empty_array \<Rightarrow> [] | Analysis a \<Rightarrow> cycles a)"

definition firstDifferences :: "real list \<Rightarrow> real list" where
  "firstDifferences xs = map (\<lambda>i. xs ! i - xs ! (i - 1)) [1 ..< length xs]"

subsection \<open>Peak detection and filtering\<close>

definition windowSize :: nat where
  "windowSize = 3"

definition isPeak :: "real list \<Rightarrow> nat \<Rightarrow> bool" where
  "isPeak smoothed i =
     list_all (\<lambda>j. j = i \<or> \<not> smoothed ! j \<ge> smoothed ! i)
       [i - windowSize ..< i + windowSize + 1]"

definition detectPeaks :: "real list \<Rightarrow> real \<Rightarrow> nat list" where
  "detectPeaks smoothed minPeakHeight =
     filter (\<lambda>i. isPeak smoothed i \<and> smoothed ! i > minPeakHeight)
       [windowSize ..< length smoothed - windowSize]"

text \<open>
  The inner loop over \<^verbatim>\<open>filteredPeaks\<close>: it stops at the first earlier peak closer than
  \<^verbatim>\<open>minCycleLength\<close>, which it removes (\<^verbatim>\<open>splice\<close>) when the current peak is higher.
  The result is the list after the loop and \<^verbatim>\<open>isSignificant\<close>.
\<close>

fun scanFiltered :: "real list \<Rightarrow> nat \<Rightarrow> nat \<Rightarrow> nat list \<Rightarrow> nat list \<times> bool" where
  "scanFiltered smoothed minCycleLength currentPeak [] = ([], True)"
| "scanFiltered smoothed minCycleLength currentPeak (prevPeak # rest) =
     (if \<bar>int currentPeak - int prevPeak\<bar> < int minCycleLength then
        (if smoothed ! currentPeak > smoothed ! prevPeak then (rest, True)
         else (prevPeak # rest, False))
      else
        (let (rest', isSignificant) = scanFiltered smoothed minCycleLength currentPeak rest
         in (prevPeak # rest', isSignificant)))"

definition filterPeaks :: "real list \<Rightarrow> nat \<Rightarrow> nat list \<Rightarrow> nat list" where
  "filterPeaks smoothed minCycleLength peakList =
     fold (\<lambda>currentPeak filteredPeaks.
             let (kept, isSignificant) =
                   scanFiltered smoothed minCycleLength currentPeak filteredPeaks
             in if isSignificant then kept @ [currentPeak] else kept)
          peakList []"

subsection \<open>Start and end of a cycle\<close>

text \<open>
  A read of \<^verbatim>\<open>diffData[j]\<close> beyond the end gives \<^verbatim>\<open>undefined\<close>, for which every
  comparison is false; the guard \<open>j < length ds\<close> says so.
\<close>

definition firstStart :: "real list \<Rightarrow> nat \<Rightarrow> nat" where
  "firstStart ds peak =
     (case find (\<lambda>j. j < length ds \<and> ds ! j > 0.02) [0 ..< peak] of
        Some j \<Rightarrow> j
      | None \<Rightarrow> 0)"

definition laterStart :: "real list \<Rightarrow> real list \<Rightarrow> int \<Rightarrow> nat \<Rightarrow> nat" where
  "laterStart smoothed ds lastEndFrame peak =
     (let searchStart = nat (lastEndFrame + 1);
          (localMin, localMinIndex) =
             fold (\<lambda>j (localMin, localMinIndex).
                     if smoothed ! j < localMin then (smoothed ! j, j)
                     else (localMin, localMinIndex))
                  [searchStart ..< peak] (smoothed ! peak, peak)
      in case find (\<lambda>j. j < length ds \<and> ds ! j > 0.015) [localMinIndex ..< peak] of
           Some j \<Rightarrow> j
         | None \<Rightarrow> localMinIndex)"

fun postMinLoop :: "real list \<Rightarrow> real list \<Rightarrow> real \<times> nat \<Rightarrow> nat list \<Rightarrow> real \<times> nat" where
  "postMinLoop smoothed ds acc [] = acc"
| "postMinLoop smoothed ds (postLocalMin, postLocalMinIndex) (j # js) =
     (let acc = (if smoothed ! j < postLocalMin then (smoothed ! j, j)
                 else (postLocalMin, postLocalMinIndex))
      in if int j < int (length smoothed) - 1 \<and> j < length ds \<and> ds ! j > 0.02 then acc
         else postMinLoop smoothed ds acc js)"

definition findEnd :: "real list \<Rightarrow> real list \<Rightarrow> nat \<Rightarrow> nat" where
  "findEnd smoothed ds peak =
     (let (postLocalMin, postLocalMinIndex) =
             postMinLoop smoothed ds (smoothed ! peak, peak)
               [peak + 1 ..< min (length smoothed) (peak + 100)]
      in case find (\<lambda>j. j < length ds \<and> \<bar>ds ! j\<bar> < 0.015)
                   [postLocalMinIndex ..< min (length smoothed) (postLocalMinIndex + 30)] of
           Some j \<Rightarrow> j
         | None \<Rightarrow> postLocalMinIndex)"

subsection \<open>detectSwallowingCycles\<close>

text \<open>
  One pass of the loop over \<^verbatim>\<open>filteredPeaks\<close>. The state is the list of accepted
  cycles and \<^verbatim>\<open>lastEndFrame\<close>, which starts at \<open>-1\<close>.
\<close>

definition cycleStep ::
  "real list \<Rightarrow> real list \<Rightarrow> row list \<Rightarrow> nat \<times> nat \<Rightarrow> cycle list \<times> int \<Rightarrow> cycle list \<times> int" where
  "cycleStep smoothed ds processedData ip st =
     (case (ip, st) of ((i, peak), (swallowingCycles, lastEndFrame)) \<Rightarrow>
        let start = (if i = 0 then firstStart ds peak
                     else laterStart smoothed ds lastEndFrame peak);
            end = findEnd smoothed ds peak;
            cycleLength = int end - int start;
            isReasonableLength = (cycleLength \<ge> 5 \<and> cycleLength \<le> 200);
            isSequential = (int start > lastEndFrame);
            hasValidStart = (start < peak);
            hasValidEnd = (end > peak)
        in if isReasonableLength \<and> isSequential \<and> hasValidStart \<and> hasValidEnd then
             (swallowingCycles @
                [\<lparr> cycleNumber = i + 1,
                   startFrame = start,
                   peakFrame = peak,
                   endFrame = end,
                   peakValue = smoothed ! peak,
                   duration = cycleLength,
                   params = extractCycleParameters start end processedData (i + 1) \<rparr>],
              int end)
           else (swallowingCycles, lastEndFrame))"

definition detectSwallowingCycles ::
  "real list \<Rightarrow> row list \<Rightarrow> real \<Rightarrow> nat \<Rightarrow> detected" where
  "detectSwallowingCycles zscoreData processedData minPeakHeight minCycleLength =
     (if length zscoreData < minCycleLength then Empty_array
      else
        let smoothed = savitzkyGolayFilter zscoreData 5;
            ds = firstDifferences smoothed;
            filteredPeaks = filterPeaks smoothed minCycleLength
                              (detectPeaks smoothed minPeakHeight);
            swallowingCycles =
              fst (fold (cycleStep smoothed ds processedData)
                        (enumerate 0 filteredPeaks) ([], - 1))
        in Analysis \<lparr> cycles = swallowingCycles,
                      totalSwallows = length swallowingCycles,
                      smoothedData = smoothed,
                      diffData = ds,
                      peaks = filteredPeaks \<rparr>)"

section \<open>Calibration and grouped standardization\<close>

record 'a groupStats =
  mean :: 'a
  stdDev :: 'a

text \<open>
  \<^verbatim>\<open>calculateGroupZScore\<close> collects the values of the group's parameters that are not
  \<^verbatim>\<open>null\<close>, parameter by parameter, and returns their mean and population standard
  deviation, the latter replaced by 1 unless it is greater than 0. The area group holds
  numbers only and is computed over the reals.
\<close>

definition groupValues :: "(row \<Rightarrow> 'a option) list \<Rightarrow> row list \<Rightarrow> 'a list" where
  "groupValues paramNames data = concat (map (\<lambda>paramName. nonNull paramName data) paramNames)"

definition meanOf :: "real list \<Rightarrow> real" where
  "meanOf vs = sum_list vs / real (length vs)"

definition varianceOf :: "real list \<Rightarrow> real" where
  "varianceOf vs = sum_list (map (\<lambda>v. (v - meanOf vs) ^ 2) vs) / real (length vs)"

definition calculateGroupZScore :: "real list \<Rightarrow> real groupStats" where
  "calculateGroupZScore vs =
     (if length vs = 0 then \<lparr> mean = 0, stdDev = 1 \<rparr>
      else
        let stdDev = sqrt (varianceOf vs)
        in \<lparr> mean = meanOf vs, stdDev = (if stdDev > 0 then stdDev else 1) \<rparr>)"

text \<open>
  The same function on the distance group, whose values can be NaN: a NaN among the
  values makes the mean NaN, and the comparison \<^verbatim>\<open>stdDev > 0\<close> false.
\<close>

definition num_sum :: "num list \<Rightarrow> num" where
  "num_sum vs = fold (\<lambda>v sum. num_add sum v) vs (Num 0)"

definition num_meanOf :: "num list \<Rightarrow> num" where
  "num_meanOf vs = num_div (num_sum vs) (Num (real (length vs)))"

definition num_varianceOf :: "num list \<Rightarrow> num" where
  "num_varianceOf vs =
     num_div (num_sum (map (\<lambda>v. let d = num_sub v (num_meanOf vs) in num_mul d d) vs))
             (Num (real (length vs)))"

definition num_calculateGroupZScore :: "num list \<Rightarrow> num groupStats" where
  "num_calculateGroupZScore vs =
     (if length vs = 0 then \<lparr> mean = Num 0, stdDev = Num 1 \<rparr>
      else
        let stdDev = num_sqrt (num_varianceOf vs)
        in \<lparr> mean = num_meanOf vs,
             stdDev = (if num_gt stdDev (Num 0) then stdDev else Num 1) \<rparr>)"

definition areaParameterNames :: "(row \<Rightarrow> real option) list" where
  "areaParameterNames =
     [normalized_bolus_pharynx_overlap, normalized_bolus_vestibule_overlap,
      normalized_pharynx, normalized_vestibule, normalized_bolus]"

definition distanceParameterNames :: "(row \<Rightarrow> num option) list" where
  "distanceParameterNames = [normalized_hyoid_c4_distance, normalized_ues_length]"

definition areaZScore :: "real groupStats \<Rightarrow> real option \<Rightarrow> real option \<Rightarrow> real option" where
  "areaZScore st normalizedValue old =
     (case normalizedValue of
        None \<Rightarrow> old
      | Some v \<Rightarrow> Some ((v - mean st) / stdDev st))"

definition distanceZScore :: "num groupStats \<Rightarrow> num option \<Rightarrow> num option \<Rightarrow> num option" where
  "distanceZScore st normalizedValue old =
     (case normalizedValue of
        None \<Rightarrow> old
      | Some v \<Rightarrow> Some (num_div (num_sub v (mean st)) (stdDev st)))"

definition applyZScores :: "real groupStats \<Rightarrow> num groupStats \<Rightarrow> row \<Rightarrow> row" where
  "applyZScores areaSt distanceSt r =
     r \<lparr> zscore_bolus_pharynx_overlap :=
           areaZScore areaSt (normalized_bolus_pharynx_overlap r) (zscore_bolus_pharynx_overlap r),
         zscore_bolus_vestibule_overlap :=
           areaZScore areaSt (normalized_bolus_vestibule_overlap r)
             (zscore_bolus_vestibule_overlap r),
         zscore_pharynx := areaZScore areaSt (normalized_pharynx r) (zscore_pharynx r),
         zscore_vestibule := areaZScore areaSt (normalized_vestibule r) (zscore_vestibule r),
         zscore_bolus := areaZScore areaSt (normalized_bolus r) (zscore_bolus r),
         zscore_hyoid_c4_distance :=
           distanceZScore distanceSt (normalized_hyoid_c4_distance r) (zscore_hyoid_c4_distance r),
         zscore_ues_length :=
           distanceZScore distanceSt (normalized_ues_length r) (zscore_ues_length r) \<rparr>"

text \<open>
  The smoothed series. The three length series are smoothed after their \<^verbatim>\<open>null\<close>
  entries (for the C2-C4 length also the entries that are not positive) have been
  filtered out, so they can be shorter than the list of frames.
\<close>

record smoothedSeries =
  s_bolus_pharynx_overlap :: "real list"
  s_bolus_vestibule_overlap :: "real list"
  s_pharynx :: "real list"
  s_vestibule :: "real list"
  s_bolus :: "real list"
  s_hyoid_c4_distance :: "real list"
  s_ues_length :: "real list"
  s_c2c4_length :: "real list"

definition smoothAll :: "area list \<Rightarrow> smoothedSeries" where
  "smoothAll originalAreas =
     \<lparr> s_bolus_pharynx_overlap =
         savitzkyGolayFilter (map bolus_pharynx_overlap originalAreas) 5,
       s_bolus_vestibule_overlap =
         savitzkyGolayFilter (map bolus_vestibule_overlap originalAreas) 5,
       s_pharynx = savitzkyGolayFilter (map pharynx originalAreas) 5,
       s_vestibule = savitzkyGolayFilter (map vestibule originalAreas) 5,
       s_bolus = savitzkyGolayFilter (map (\<lambda>a. if bolus a = 0 then 0 else bolus a) originalAreas) 5,
       s_hyoid_c4_distance = savitzkyGolayFilter (nonNull hyoid_c4_distance originalAreas) 5,
       s_ues_length = savitzkyGolayFilter (nonNull ues_length originalAreas) 5,
       s_c2c4_length =
         savitzkyGolayFilter (filter (\<lambda>d. d > 0) (nonNull c2c4_length originalAreas)) 5 \<rparr>"

text \<open>
  \<^verbatim>\<open>smoothedData.c2c4_length[index] || area.c2c4_length\<close>: the smoothed value at the
  frame's index unless it is missing or zero, else the frame's own raw length.
\<close>

definition c2c4LengthAt :: "smoothedSeries \<Rightarrow> nat \<Rightarrow> area \<Rightarrow> real option" where
  "c2c4LengthAt sm index a =
     (if index < length (s_c2c4_length sm) \<and> s_c2c4_length sm ! index \<noteq> 0
      then Some (s_c2c4_length sm ! index)
      else c2c4_length a)"

text \<open>
  \<^verbatim>\<open>series[index] !== null ? series[index] * scaleFactorSquared : null\<close> on a smoothed
  length series: it holds no \<^verbatim>\<open>null\<close>, and beyond its end the product is NaN.
\<close>

definition scaledLength :: "real list \<Rightarrow> nat \<Rightarrow> real \<Rightarrow> num option" where
  "scaledLength series index scaleFactorSquared =
     (if index < length series then Some (Num (series ! index * scaleFactorSquared))
      else Some NaN)"

definition normalizeFrame :: "smoothedSeries \<Rightarrow> real \<Rightarrow> nat \<Rightarrow> area \<Rightarrow> row" where
  "normalizeFrame sm referenceC2C4 index a =
     (let unscaled =
            \<lparr> frame = index,
              smoothed_bolus_pharynx_overlap = s_bolus_pharynx_overlap sm ! index,
              smoothed_bolus_vestibule_overlap = s_bolus_vestibule_overlap sm ! index,
              smoothed_pharynx = s_pharynx sm ! index,
              smoothed_vestibule = s_vestibule sm ! index,
              smoothed_bolus = s_bolus sm ! index,
              normalized_bolus_pharynx_overlap = None,
              normalized_bolus_vestibule_overlap = None,
              normalized_pharynx = None,
              normalized_vestibule = None,
              normalized_bolus = None,
              normalized_hyoid_c4_distance = None,
              normalized_ues_length = None,
              zscore_bolus_pharynx_overlap = None,
              zscore_bolus_vestibule_overlap = None,
              zscore_pharynx = None,
              zscore_vestibule = None,
              zscore_bolus = None,
              zscore_hyoid_c4_distance = None,
              zscore_ues_length = None,
              row_cycleNumber = None,
              row_startFrame = None,
              row_endFrame = None \<rparr>
      in case c2c4LengthAt sm index a of
           None \<Rightarrow> unscaled
         | Some c2c4Length \<Rightarrow>
             if c2c4Length = 0 \<or> c2c4Length \<le> 0 then unscaled
             else
               let scaleFactor = referenceC2C4 / c2c4Length;
                   scaleFactorSquared = scaleFactor * scaleFactor
               in unscaled
                    \<lparr> normalized_bolus_pharynx_overlap :=
                        Some (s_bolus_pharynx_overlap sm ! index * scaleFactor),
                      normalized_bolus_vestibule_overlap :=
                        Some (s_bolus_vestibule_overlap sm ! index * scaleFactor),
                      normalized_pharynx := Some (s_pharynx sm ! index * scaleFactor),
                      normalized_vestibule := Some (s_vestibule sm ! index * scaleFactor),
                      normalized_bolus := Some (s_bolus sm ! index * scaleFactor),
                      normalized_hyoid_c4_distance :=
                        scaledLength (s_hyoid_c4_distance sm) index scaleFactorSquared,
                      normalized_ues_length :=
                        scaledLength (s_ues_length sm) index scaleFactorSquared \<rparr>)"

record processed =
  reference :: real
  processedData :: "row list"
  areaStats :: "real groupStats"
  distanceStats :: "num groupStats"

definition normalizedRows :: "area list \<Rightarrow> real \<Rightarrow> row list" where
  "normalizedRows originalAreas referenceC2C4 =
     map (\<lambda>(index, a). normalizeFrame (smoothAll originalAreas) referenceC2C4 index a)
         (enumerate 0 originalAreas)"

definition processAdvancedData :: "area list \<Rightarrow> real \<Rightarrow> processed" where
  "processAdvancedData originalAreas referenceC2C4 =
     (let normalizedData = normalizedRows originalAreas referenceC2C4;
          areaSt = calculateGroupZScore (groupValues areaParameterNames normalizedData);
          distanceSt =
            num_calculateGroupZScore (groupValues distanceParameterNames normalizedData)
      in \<lparr> reference = referenceC2C4,
           processedData = map (applyZScores areaSt distanceSt) normalizedData,
           areaStats = areaSt,
           distanceStats = distanceSt \<rparr>)"

section \<open>Reading the returned object\<close>

text \<open>
  The fields of the object \<^verbatim>\<open>extractCycleParameters\<close> returns, as a caller reads them: in
  the object \<^verbatim>\<open>{ PCR: null }\<close> the PCR is \<^verbatim>\<open>null\<close> and every other field is missing.
\<close>

definition pcrOf :: "extracted \<Rightarrow> num option" where
  "pcrOf e = (case e of PCR_null \<Rightarrow> None | Parameters p \<Rightarrow> Some (PCR (pcr p)))"





section \<open>Nearest-rank percentiles\<close>

text \<open>
  The percentile in the words of the specification (nearest rank, no interpolation): the
  value of rank \<open>\<lceil>q N\<rceil>\<close>, counted from 1, among the \<open>N\<close> values in ascending order.
  The code uses the index \<open>\<lfloor>q N\<rfloor>\<close>, counted from 0, instead; the two differ exactly when
  \<open>q N\<close> is a whole number.
\<close>

definition nearestRank :: "real list \<Rightarrow> real \<Rightarrow> real" where
  "nearestRank xs q = sort xs ! (nat \<lceil>q * real (length xs)\<rceil> - 1)"

section \<open>The per-frame ratios of a cycle\<close>

text \<open>
  The list of adjusted overlap/vestibule ratios of the frames of a cycle in which both
  normalized values are present, written without the loop of the source; lemma
  \<open>overlapLoop_ratios\<close> shows that the loop computes it.
\<close>

definition frameRatios :: "row list \<Rightarrow> real list" where
  "frameRatios cycleData =
     List.map_filter
       (\<lambda>r. case (normalized_bolus_vestibule_overlap r, normalized_vestibule r) of
               (Some overlap, Some vestibuleArea) \<Rightarrow>
                 Some (fst (adjustOperands overlap vestibuleArea)
                       / snd (adjustOperands overlap vestibuleArea))
             | _ \<Rightarrow> None)
       cycleData"

section \<open>The standardized values of a group\<close>

text \<open>
  The standardized fields of the two groups (\<^verbatim>\<open>paramName.replace('normalized_', 'zscore_')\<close>),
  in the order of the normalized ones, and the standardization of a value against the
  mean and the population standard deviation of a list of values.
\<close>

definition areaZScoreNames :: "(row \<Rightarrow> real option) list" where
  "areaZScoreNames =
     [zscore_bolus_pharynx_overlap, zscore_bolus_vestibule_overlap,
      zscore_pharynx, zscore_vestibule, zscore_bolus]"

definition distanceZScoreNames :: "(row \<Rightarrow> num option) list" where
  "distanceZScoreNames = [zscore_hyoid_c4_distance, zscore_ues_length]"

definition standardize :: "real list \<Rightarrow> real \<Rightarrow> real" where
  "standardize vs v = (v - meanOf vs) / sqrt (varianceOf vs)"

section \<open>The invariant of the segmentation loop\<close>

text \<open>
  The state of the loop over the filtered peaks is the list of accepted cycles and
  \<^verbatim>\<open>lastEndFrame\<close>. Every accepted cycle has its start before its peak and its peak
  before its end, ends no later than \<^verbatim>\<open>lastEndFrame\<close>, and ends before every cycle
  accepted after it starts.
\<close>

definition cycleInvariant :: "cycle list \<times> int \<Rightarrow> bool" where
  "cycleInvariant st =
     ((\<forall>c \<in> set (fst st). startFrame c < peakFrame c \<and> peakFrame c < endFrame c
                            \<and> int (endFrame c) \<le> snd st)
      \<and> sorted_wrt (\<lambda>a b. endFrame a < startFrame b) (fst st))"

section \<open>Example rows\<close>

text \<open>A row of frame \<open>index\<close> in which every measurement is absent.\<close>

definition blankRow :: "nat \<Rightarrow> row" where
  "blankRow index =
     \<lparr> frame = index,
       smoothed_bolus_pharynx_overlap = 0,
       smoothed_bolus_vestibule_overlap = 0,
       smoothed_pharynx = 0,
       smoothed_vestibule = 0,
       smoothed_bolus = 0,
       normalized_bolus_pharynx_overlap = None,
       normalized_bolus_vestibule_overlap = None,
       normalized_pharynx = None,
       normalized_vestibule = None,
       normalized_bolus = None,
       normalized_hyoid_c4_distance = None,
       normalized_ues_length = None,
       zscore_bolus_pharynx_overlap = None,
       zscore_bolus_vestibule_overlap = None,
       zscore_pharynx = None,
       zscore_vestibule = None,
       zscore_bolus = None,
       zscore_hyoid_c4_distance = None,
       zscore_ues_length = None,
       row_cycleNumber = None,
       row_startFrame = None,
       row_endFrame = None \<rparr>"

text \<open>
  A row of a calibrated frame, in which every normalized and standardized value is present,
  with the standardized pharynx area \<open>z\<close>.
\<close>

definition calibratedRow :: "nat \<Rightarrow> real \<Rightarrow> row" where
  "calibratedRow index z =
     (blankRow index)
       \<lparr> normalized_bolus_pharynx_overlap := Some 1,
         normalized_bolus_vestibule_overlap := Some 1,
         normalized_pharynx := Some 1,
         normalized_vestibule := Some 1,
         normalized_bolus := Some 1,
         normalized_hyoid_c4_distance := Some (Num 1),
         normalized_ues_length := Some (Num 1),
         zscore_bolus_pharynx_overlap := Some 0,
         zscore_bolus_vestibule_overlap := Some 0,
         zscore_pharynx := Some z,
         zscore_vestibule := Some 0,
         zscore_bolus := Some 0,
         zscore_hyoid_c4_distance := Some (Num 0),
         zscore_ues_length := Some (Num 0) \<rparr>"

text \<open>One frame whose normalized overlap and vestibule area are both below 0.01.\<close>

definition tinyRows :: "row list" where
  "tinyRows = [(blankRow 0) \<lparr> normalized_bolus_vestibule_overlap := Some 0.001,
                               normalized_vestibule := Some 0.005,
                               zscore_pharynx := Some 0 \<rparr>]"

text \<open>Two frames whose standardized pharynx areas are both negative.\<close>

definition negativeRows :: "row list" where
  "negativeRows = [calibratedRow 0 (- 2), calibratedRow 1 (- 8)]"

text \<open>
  Twenty frames whose standardized pharynx areas are \<open>-2, -1.9, ..., -0.1\<close>.
\<close>

definition twentySamples :: "real list" where
  "twentySamples =
     [- 2, - 1.9, - 1.8, - 1.7, - 1.6, - 1.5, - 1.4, - 1.3, - 1.2, - 1.1,
      - 1, - 0.9, - 0.8, - 0.7, - 0.6, - 0.5, - 0.4, - 0.3, - 0.2, - 0.1]"

definition twentyRows :: "row list" where
  "twentyRows = map (\<lambda>(index, z). calibratedRow index z) (enumerate 0 twentySamples)"

text \<open>
  Two frames with vestibule area 1; the overlap is 0.1 in the first and \<open>overlap\<close> in the
  second, which therefore has the highest ratio when \<open>overlap\<close> is above 0.1.
\<close>

definition thresholdRows :: "real \<Rightarrow> row list" where
  "thresholdRows overlap =
     [(blankRow 0) \<lparr> normalized_bolus_vestibule_overlap := Some 0.1,
                     normalized_vestibule := Some 1,
                     zscore_pharynx := Some 0 \<rparr>,
      (blankRow 1) \<lparr> normalized_bolus_vestibule_overlap := Some overlap,
                     normalized_vestibule := Some 1,
                     zscore_pharynx := Some 0 \<rparr>]"

text \<open>
  Rows for the 25 frames of the example series below: a standardized pharynx area in
  every frame and a UES length that falls to a valley at frame 15 and rises to a peak at
  frame 20.
\<close>

definition uesSeries :: "real list" where
  "uesSeries = [3, 3, 3, 3, 3, 3, 3, 3, 3, 3, 3, 3, 3, 3, 2, 0, 1, 2, 3, 4, 5, 4, 3, 2, 1]"

definition uesRows :: "row list" where
  "uesRows =
     map (\<lambda>(index, u). (blankRow index) \<lparr> zscore_pharynx := Some 0,
                                            zscore_ues_length := Some (Num u) \<rparr>)
         (enumerate 0 uesSeries)"

text \<open>The UESO frame of a detected cycle, if it was reported.\<close>

definition uesoOf :: "cycle \<Rightarrow> nat option" where
  "uesoOf c = (case params c of PCR_null \<Rightarrow> None | Parameters p \<Rightarrow> map_option UESO (ues p))"

section \<open>Example frames\<close>

text \<open>A frame in which every area is 0, with a calibration length and no other length.\<close>

definition flatArea :: area where
  "flatArea = \<lparr> pharynx = 0, vestibule = 0, bolus = 0, bolus_pharynx_overlap = 0,
                bolus_vestibule_overlap = 0, c2c4_length = Some 1,
                hyoid_c4_distance = None, ues_length = None \<rparr>"

text \<open>A frame with one nonzero area and all three lengths.\<close>

definition variedArea :: area where
  "variedArea = \<lparr> pharynx = 0, vestibule = 0, bolus = 5, bolus_pharynx_overlap = 0,
                  bolus_vestibule_overlap = 0, c2c4_length = Some 1,
                  hyoid_c4_distance = Some 1, ues_length = Some 3 \<rparr>"

text \<open>Two frames, the first without a hyoid-C4 distance.\<close>

definition gapFrames :: "area list" where
  "gapFrames =
     [\<lparr> pharynx = 1, vestibule = 1, bolus = 1, bolus_pharynx_overlap = 1,
        bolus_vestibule_overlap = 1, c2c4_length = Some 1,
        hyoid_c4_distance = None, ues_length = Some 7 \<rparr>,
      \<lparr> pharynx = 1, vestibule = 1, bolus = 1, bolus_pharynx_overlap = 1,
        bolus_vestibule_overlap = 1, c2c4_length = Some 1,
        hyoid_c4_distance = Some 5, ues_length = Some 9 \<rparr>]"

text \<open>Two frames, the first without a C2-C4 calibration length.\<close>

definition calibrationGapFrames :: "area list" where
  "calibrationGapFrames =
     [\<lparr> pharynx = 3, vestibule = 1, bolus = 1, bolus_pharynx_overlap = 1,
        bolus_vestibule_overlap = 1, c2c4_length = None,
        hyoid_c4_distance = Some 6, ues_length = Some 7 \<rparr>,
      \<lparr> pharynx = 4, vestibule = 1, bolus = 1, bolus_pharynx_overlap = 1,
        bolus_vestibule_overlap = 1, c2c4_length = Some 4,
        hyoid_c4_distance = Some 5, ues_length = Some 9 \<rparr>]"


section \<open>Example series\<close>

text \<open>
  A driver series of 25 frames with baseline 0 and two isolated samples of height 2, at
  frames 5 and 20.
\<close>

definition twoBumps :: "real list" where
  "twoBumps = [0, 0, 0, 0, 0, 2, 0, 0, 0, 0, 0, 0, 0, 0, 0, 0, 0, 0, 0, 0, 2, 0, 0, 0, 0]"

section \<open>Properties\<close>

subsection \<open>Series shorter than the minimum cycle length\<close>

text \<open>
  C9: for a driver series strictly shorter than the minimum cycle length,
  \<^verbatim>\<open>detectSwallowingCycles\<close> returns the empty array, so the list of cycles is empty;
  the function is total, no input makes it fail.
\<close>

theorem short_series_gives_empty_array:
  assumes "length zscoreData < minCycleLength"
  shows "detectSwallowingCycles zscoreData rows minPeakHeight minCycleLength = Empty_array
         \<and> cyclesOf (detectSwallowingCycles zscoreData rows minPeakHeight minCycleLength) = []"
  using assms by (simp add: detectSwallowingCycles_def cyclesOf_def)

theorem short_series_gives_empty_array_witness:
  "length [0.5, 1, 0.5 :: real] < (15::nat)
   \<and> detectSwallowingCycles [0.5, 1, 0.5] [] 0.3 15 = Empty_array
   \<and> cyclesOf (detectSwallowingCycles [0.5, 1, 0.5] [] 0.3 15) = []"
  using short_series_gives_empty_array [of "[0.5, 1, 0.5]" 15 "[]" "0.3"]
  by (simp add: cyclesOf_def)

subsection \<open>Clamping in the aspiration ratio\<close>

lemma overlapLoop_adjusted:
  "d \<in> set (overlapLoop sf i rs) \<Longrightarrow>
     (adjustedOverlap d, adjustedVestibule d) = adjustOperands (normalizedOverlap d) (normalizedVestibule d)
     \<and> ratio d = adjustedOverlap d / adjustedVestibule d"
  by (induction sf i rs rule: overlapLoop.induct)
     (auto split: option.splits prod.splits)

lemma overlapLoop_frame:
  "d \<in> set (overlapLoop sf i rs) \<Longrightarrow>
     \<exists>k < length rs. detail_frame d = sf + i + k
        \<and> normalized_bolus_vestibule_overlap (rs ! k) = Some (normalizedOverlap d)
        \<and> normalized_vestibule (rs ! k) = Some (normalizedVestibule d)"
proof (induction rs arbitrary: i)
  case Nil
  then show ?case by simp
next
  case (Cons r rs)
  let ?here = "detail_frame d = sf + i
        \<and> normalized_bolus_vestibule_overlap r = Some (normalizedOverlap d)
        \<and> normalized_vestibule r = Some (normalizedVestibule d)"
  from Cons.prems have "?here \<or> d \<in> set (overlapLoop sf (i + 1) rs)"
    by (auto split: option.splits prod.splits)
  then show ?case
  proof
    assume ?here
    then have "0 < length (r # rs) \<and> detail_frame d = sf + i + 0
        \<and> normalized_bolus_vestibule_overlap ((r # rs) ! 0) = Some (normalizedOverlap d)
        \<and> normalized_vestibule ((r # rs) ! 0) = Some (normalizedVestibule d)" by simp
    then show ?thesis by blast
  next
    assume "d \<in> set (overlapLoop sf (i + 1) rs)"
    from Cons.IH [OF this] obtain k where "k < length rs" "detail_frame d = sf + (i + 1) + k"
      "normalized_bolus_vestibule_overlap (rs ! k) = Some (normalizedOverlap d)"
      "normalized_vestibule (rs ! k) = Some (normalizedVestibule d)" by blast
    then have "Suc k < length (r # rs) \<and> detail_frame d = sf + i + Suc k
        \<and> normalized_bolus_vestibule_overlap ((r # rs) ! Suc k) = Some (normalizedOverlap d)
        \<and> normalized_vestibule ((r # rs) ! Suc k) = Some (normalizedVestibule d)" by simp
    then show ?thesis by blast
  qed
qed

lemma aspiration_details:
  "overlapRatioDetails (computeAspiration sf cycleData) = Some ds \<Longrightarrow>
   ds = overlapLoop sf 0 cycleData"
  by (auto simp: computeAspiration_def Let_def noAspiration_def split: if_splits)

lemma extract_aspiration:
  "extractCycleParameters sf ef rows n = Parameters p \<Longrightarrow>
   aspiration p = computeAspiration sf (slice sf ef rows)"
  by (auto simp: extractCycleParameters_def Let_def split: if_splits)

lemma slice_nth:
  "k < length (slice sf ef rows) \<Longrightarrow> slice sf ef rows ! k = rows ! (sf + k) \<and> sf + k \<le> ef \<and> sf + k < length rows"
  by (auto simp: slice_def)

text \<open>
  C10: in every per-frame entry of \<^verbatim>\<open>overlapRatioDetails\<close> at most one operand is
  clamped. A vestibule area with absolute value below 0.01 is replaced by 0.01 and the
  overlap is then used as it is, even when it is itself below 0.01 in absolute value; the
  overlap is replaced by 0.01 only when the vestibule area is at least 0.01 in absolute
  value and the overlap is below 0.01. The entry belongs to a frame of the cycle and
  carries that frame's two normalized values, and its ratio is the quotient of the
  adjusted operands.
\<close>

theorem clamp_only_one_operand:
  assumes "extractCycleParameters sf ef rows n = Parameters p"
    and "overlapRatioDetails (aspiration p) = Some ds"
    and "d \<in> set ds"
  shows "(\<bar>normalizedVestibule d\<bar> < 0.01 \<longrightarrow>
            adjustedVestibule d = 0.01 \<and> adjustedOverlap d = normalizedOverlap d)
       \<and> (adjustedOverlap d \<noteq> normalizedOverlap d \<longrightarrow>
            \<bar>normalizedVestibule d\<bar> \<ge> 0.01 \<and> \<bar>normalizedOverlap d\<bar> < 0.01)
       \<and> (\<bar>normalizedVestibule d\<bar> \<ge> 0.01 \<and> \<bar>normalizedOverlap d\<bar> < 0.01 \<longrightarrow>
            adjustedOverlap d = 0.01 \<and> adjustedVestibule d = normalizedVestibule d)
       \<and> (\<bar>normalizedVestibule d\<bar> \<ge> 0.01 \<and> \<bar>normalizedOverlap d\<bar> \<ge> 0.01 \<longrightarrow>
            adjustedOverlap d = normalizedOverlap d \<and> adjustedVestibule d = normalizedVestibule d)
       \<and> (adjustedOverlap d = normalizedOverlap d \<or> adjustedVestibule d = normalizedVestibule d)
       \<and> ratio d = adjustedOverlap d / adjustedVestibule d
       \<and> sf \<le> detail_frame d \<and> detail_frame d \<le> ef \<and> detail_frame d < length rows
       \<and> normalized_bolus_vestibule_overlap (rows ! detail_frame d) = Some (normalizedOverlap d)
       \<and> normalized_vestibule (rows ! detail_frame d) = Some (normalizedVestibule d)"
proof -
  have ds: "ds = overlapLoop sf 0 (slice sf ef rows)"
    using assms(1,2) extract_aspiration aspiration_details by metis
  with assms(3) have mem: "d \<in> set (overlapLoop sf 0 (slice sf ef rows))" by simp
  have adj: "(adjustedOverlap d, adjustedVestibule d)
               = adjustOperands (normalizedOverlap d) (normalizedVestibule d)"
    and rat: "ratio d = adjustedOverlap d / adjustedVestibule d"
    using overlapLoop_adjusted [OF mem] by simp_all
  obtain k where k: "k < length (slice sf ef rows)" "detail_frame d = sf + 0 + k"
      "normalized_bolus_vestibule_overlap (slice sf ef rows ! k) = Some (normalizedOverlap d)"
      "normalized_vestibule (slice sf ef rows ! k) = Some (normalizedVestibule d)"
    using overlapLoop_frame [OF mem] by blast
  have fr: "sf \<le> detail_frame d \<and> detail_frame d \<le> ef \<and> detail_frame d < length rows
       \<and> normalized_bolus_vestibule_overlap (rows ! detail_frame d) = Some (normalizedOverlap d)
       \<and> normalized_vestibule (rows ! detail_frame d) = Some (normalizedVestibule d)"
    using k slice_nth [OF k(1)] by simp
  from adj have "(\<bar>normalizedVestibule d\<bar> < 0.01 \<longrightarrow>
            adjustedVestibule d = 0.01 \<and> adjustedOverlap d = normalizedOverlap d)
       \<and> (adjustedOverlap d \<noteq> normalizedOverlap d \<longrightarrow>
            \<bar>normalizedVestibule d\<bar> \<ge> 0.01 \<and> \<bar>normalizedOverlap d\<bar> < 0.01)
       \<and> (\<bar>normalizedVestibule d\<bar> \<ge> 0.01 \<and> \<bar>normalizedOverlap d\<bar> < 0.01 \<longrightarrow>
            adjustedOverlap d = 0.01 \<and> adjustedVestibule d = normalizedVestibule d)
       \<and> (\<bar>normalizedVestibule d\<bar> \<ge> 0.01 \<and> \<bar>normalizedOverlap d\<bar> \<ge> 0.01 \<longrightarrow>
            adjustedOverlap d = normalizedOverlap d \<and> adjustedVestibule d = normalizedVestibule d)
       \<and> (adjustedOverlap d = normalizedOverlap d \<or> adjustedVestibule d = normalizedVestibule d)"
    by (auto simp: adjustOperands_def split: if_splits)
  with rat fr show ?thesis by blast
qed

theorem clamp_only_one_operand_witness:
  "\<exists>p ds d. extractCycleParameters 0 0 tinyRows 1 = Parameters p
      \<and> overlapRatioDetails (aspiration p) = Some ds \<and> d \<in> set ds
      \<and> normalizedOverlap d = 0.001 \<and> normalizedVestibule d = 0.005
      \<and> \<bar>normalizedOverlap d\<bar> < 0.01 \<and> \<bar>normalizedVestibule d\<bar> < 0.01
      \<and> adjustedVestibule d = 0.01 \<and> adjustedOverlap d = 0.001 \<and> ratio d = 0.1"
proof -
  let ?d = "\<lparr> detail_frame = 0, normalizedOverlap = 0.001, normalizedVestibule = 0.005,
              adjustedOverlap = 0.001, adjustedVestibule = 0.01, ratio = 0.1 \<rparr>"
  obtain p where p: "extractCycleParameters 0 0 tinyRows 1 = Parameters p"
    by (simp add: extractCycleParameters_def tinyRows_def blankRow_def slice_def nonNull_def
        List.map_filter_simps Let_def)
  have "aspiration p = computeAspiration 0 (slice 0 0 tinyRows)"
    using p by (auto simp: extractCycleParameters_def Let_def split: if_splits)
  then have ds: "overlapRatioDetails (aspiration p) = Some [?d]"
    by (simp add: tinyRows_def blankRow_def slice_def nonNull_def List.map_filter_simps
        computeAspiration_def adjustOperands_def)
  have mem: "?d \<in> set [?d]" by simp
  from clamp_only_one_operand [OF p ds mem] p ds mem show ?thesis
    by (intro exI [of _ p] exI [of _ "[?d]"] exI [of _ ?d]) simp
qed

subsection \<open>Pharyngeal contraction ratio\<close>

lemma extract_full:
  "nonNull zscore_pharynx (slice sf ef rows) \<noteq> [] \<Longrightarrow>
   extractCycleParameters sf ef rows n =
     Parameters
       \<lparr> pcr = computePCR (nonNull zscore_pharynx (slice sf ef rows)),
         aspiration = computeAspiration sf (slice sf ef rows),
         hyb = computeHYB sf rows n (slice sf ef rows),
         ues = computeUES sf rows n (slice sf ef rows),
         lvc = computeLVC sf rows n (slice sf ef rows) \<rparr>"
  by (simp add: extractCycleParameters_def Let_def)

lemma percentile_indices:
  assumes "0 < n"
  shows "nat \<lfloor>real n * 0.05\<rfloor> \<le> nat \<lfloor>real n * 0.95\<rfloor>" "nat \<lfloor>real n * 0.95\<rfloor> < n"
proof -
  have "real n * 0.05 \<le> real n * 0.95" by simp
  then show "nat \<lfloor>real n * 0.05\<rfloor> \<le> nat \<lfloor>real n * 0.95\<rfloor>"
    by (intro nat_mono floor_mono)
  have "real n * 0.95 < real n" using assms by simp
  then have "\<lfloor>real n * 0.95\<rfloor> < int n" by (simp add: floor_less_iff)
  then show "nat \<lfloor>real n * 0.95\<rfloor> < n" using assms by linarith
qed

text \<open>
  The nearest-rank 5th percentile is never above the 95th, so a pair such as
  5th = -2 and 95th = -8 does not occur; for the values -8 and -2 the ratio is 8/2.
\<close>

lemma percentiles_ordered:
  assumes "z \<noteq> []"
  shows "sort z ! nat \<lfloor>real (length z) * 0.05\<rfloor> \<le> sort z ! nat \<lfloor>real (length z) * 0.95\<rfloor>"
proof -
  have n: "0 < length z" using assms by simp
  show ?thesis
    using percentile_indices [OF n]
    by (intro sorted_nth_mono) simp_all
qed

lemma computePCR_zero_divisor:
  assumes "z \<noteq> []" and "PCR_adjusted_p95 (computePCR z) = 0"
  shows "PCR_adjusted_p5 (computePCR z) = 0"
proof -
  let ?p5 = "sort z ! nat \<lfloor>real (length z) * 0.05\<rfloor>"
  let ?p95 = "sort z ! nat \<lfloor>real (length z) * 0.95\<rfloor>"
  have ord: "?p5 \<le> ?p95" by (rule percentiles_ordered [OF assms(1)])
  from assms(2) show ?thesis
    using ord
    by (auto simp: computePCR_def adjustPercentiles_def Let_def split: if_splits prod.splits)
qed

lemma twentyRows_samples:
  "nonNull zscore_pharynx (slice 0 19 twentyRows) = twentySamples"
  by (simp add: twentyRows_def twentySamples_def calibratedRow_def blankRow_def slice_def
      nonNull_def List.map_filter_simps enumerate_eq_zip upt_conv_Cons
      numeral_2_eq_2 [symmetric])

lemma twentySamples_sorted: "sort twentySamples = twentySamples"
  by (simp add: twentySamples_def)

lemma twentySamples_pcr: "PCR (computePCR twentySamples) = Num 19"
  unfolding computePCR_def twentySamples_sorted
  by (simp add: twentySamples_def adjustPercentiles_def)

lemma negativeRows_samples:
  "nonNull zscore_pharynx (slice 0 1 negativeRows) = [- 2, - 8]"
  by (simp add: negativeRows_def calibratedRow_def blankRow_def slice_def nonNull_def
      List.map_filter_simps)

text \<open>
  C4 as stated fails twice. With nearest-rank percentiles it fails on twenty samples:
  the nearest-rank 5th and 95th percentiles of \<open>-2, -1.9, ..., -0.1\<close> are \<open>-2\<close> and
  \<open>-0.2\<close>, both negative, with quotient 10, and the reported PCR is 19, the quotient of
  the values \<open>-1.9\<close> and \<open>-0.1\<close> at the indices 1 and 19. The example of the claim fails
  as well: for the samples \<open>-2\<close> and \<open>-8\<close> the reported PCR is 4, not 0.25.
\<close>

theorem pcr_nearest_rank_counterexample:
  "nonNull zscore_pharynx (slice 0 19 twentyRows) = twentySamples
   \<and> nearestRank twentySamples 0.05 = - 2
   \<and> nearestRank twentySamples 0.95 = - 0.2
   \<and> pcrOf (extractCycleParameters 0 19 twentyRows 1) = Some (Num 19)
   \<and> pcrOf (extractCycleParameters 0 19 twentyRows 1)
       \<noteq> Some (Num (\<bar>nearestRank twentySamples 0.05\<bar> / \<bar>nearestRank twentySamples 0.95\<bar>))
   \<and> nonNull zscore_pharynx (slice 0 1 negativeRows) = [- 2, - 8]
   \<and> pcrOf (extractCycleParameters 0 1 negativeRows 1) = Some (Num 4)
   \<and> pcrOf (extractCycleParameters 0 1 negativeRows 1) \<noteq> Some (Num 0.25)"
proof -
  have n5: "nearestRank twentySamples 0.05 = - 2"
    unfolding nearestRank_def twentySamples_sorted by (simp add: twentySamples_def)
  have n95: "nearestRank twentySamples 0.95 = - 0.2"
    unfolding nearestRank_def twentySamples_sorted by (simp add: twentySamples_def)
  have ne: "nonNull zscore_pharynx (slice 0 19 twentyRows) \<noteq> []"
    unfolding twentyRows_samples by (simp add: twentySamples_def)
  have p: "pcrOf (extractCycleParameters 0 19 twentyRows 1) = Some (Num 19)"
    unfolding extract_full [OF ne] twentyRows_samples
    by (simp add: pcrOf_def twentySamples_pcr)
  have ne2: "nonNull zscore_pharynx (slice 0 1 negativeRows) \<noteq> []"
    unfolding negativeRows_samples by simp
  have q: "pcrOf (extractCycleParameters 0 1 negativeRows 1) = Some (Num 4)"
    unfolding extract_full [OF ne2] negativeRows_samples
    by (simp add: pcrOf_def computePCR_def adjustPercentiles_def)
  have d1: "pcrOf (extractCycleParameters 0 19 twentyRows 1)
       \<noteq> Some (Num (\<bar>nearestRank twentySamples 0.05\<bar> / \<bar>nearestRank twentySamples 0.95\<bar>))"
    unfolding p n5 n95 by simp
  have d2: "pcrOf (extractCycleParameters 0 1 negativeRows 1) \<noteq> Some (Num 0.25)"
    unfolding q by simp
  from twentyRows_samples n5 n95 p d1 negativeRows_samples q d2 show ?thesis
    by (intro conjI)
qed


text \<open>
  C4, amended: when the cycle has a standardized pharynx sample and the values at the
  indices \<open>\<lfloor>0.05 N\<rfloor>\<close> and \<open>\<lfloor>0.95 N\<rfloor>\<close> of its \<open>N\<close> samples in ascending order (the code's
  5th and 95th percentile, no interpolation) are both negative,
  \<^verbatim>\<open>extractCycleParameters\<close> returns the full parameter object and its PCR is the quotient
  of their absolute values, \<open>\<bar>5th\<bar> / \<bar>95th\<bar>\<close>. The 5th is never above the 95th, so this
  quotient is at least 1; for the percentiles \<open>-8\<close> and \<open>-2\<close> it is 4.
\<close>

theorem pcr_of_negative_percentiles:
  assumes "z = nonNull zscore_pharynx (slice sf ef rows)"
    and "z \<noteq> []"
    and "p5 = sort z ! nat \<lfloor>real (length z) * 0.05\<rfloor>"
    and "p95 = sort z ! nat \<lfloor>real (length z) * 0.95\<rfloor>"
    and "p5 < 0" and "p95 < 0"
  shows "\<exists>p. extractCycleParameters sf ef rows n = Parameters p
           \<and> PCR_p5 (pcr p) = p5 \<and> PCR_p95 (pcr p) = p95
           \<and> PCR_adjusted_p5 (pcr p) = \<bar>p5\<bar> \<and> PCR_adjusted_p95 (pcr p) = \<bar>p95\<bar>
           \<and> PCR (pcr p) = Num (\<bar>p5\<bar> / \<bar>p95\<bar>)
           \<and> p5 \<le> p95 \<and> 1 \<le> \<bar>p5\<bar> / \<bar>p95\<bar>"
proof -
  have ord: "p5 \<le> p95"
    unfolding assms(3,4) by (rule percentiles_ordered [OF assms(2)])
  then have ratio: "1 \<le> \<bar>p5\<bar> / \<bar>p95\<bar>"
    using assms(5,6) by (simp add: le_divide_eq)
  have "\<exists>p. extractCycleParameters sf ef rows n = Parameters p
           \<and> PCR_p5 (pcr p) = p5 \<and> PCR_p95 (pcr p) = p95
           \<and> PCR_adjusted_p5 (pcr p) = \<bar>p5\<bar> \<and> PCR_adjusted_p95 (pcr p) = \<bar>p95\<bar>
           \<and> PCR (pcr p) = Num (\<bar>p5\<bar> / \<bar>p95\<bar>)"
    using assms
    by (simp add: extract_full computePCR_def adjustPercentiles_def Let_def)
  with ord ratio show ?thesis by blast
qed

theorem pcr_of_negative_percentiles_witness:
  "nonNull zscore_pharynx (slice 0 1 negativeRows) = [- 2, - 8]
   \<and> sort [- 2, - 8 :: real] ! nat \<lfloor>real (length [- 2, - 8 :: real]) * 0.05\<rfloor> = - 8
   \<and> sort [- 2, - 8 :: real] ! nat \<lfloor>real (length [- 2, - 8 :: real]) * 0.95\<rfloor> = - 2
   \<and> (\<exists>p. extractCycleParameters 0 1 negativeRows 1 = Parameters p
           \<and> PCR_p5 (pcr p) = - 8 \<and> PCR_p95 (pcr p) = - 2 \<and> PCR (pcr p) = Num 4)"
proof -
  have z: "[- 2, - 8] = nonNull zscore_pharynx (slice 0 1 negativeRows)"
    by (rule negativeRows_samples [symmetric])
  have p5: "(- 8 :: real) = sort [- 2, - 8] ! nat \<lfloor>real (length [- 2, - 8 :: real]) * 0.05\<rfloor>"
    by simp
  have p95: "(- 2 :: real) = sort [- 2, - 8] ! nat \<lfloor>real (length [- 2, - 8 :: real]) * 0.95\<rfloor>"
    by simp
  have ne: "[- 2, - 8 :: real] \<noteq> []" by simp
  have neg: "(- 8 :: real) < 0" "(- 2 :: real) < 0" by simp_all
  from pcr_of_negative_percentiles [OF z ne p5 p95 neg, of 1] z [symmetric] p5 [symmetric]
    p95 [symmetric]
  show ?thesis by auto
qed


subsection \<open>Aspiration risk\<close>

lemma overlapLoop_ratios:
  "map ratio (overlapLoop sf i cycleData) = frameRatios cycleData"
proof (induction cycleData arbitrary: i)
  case Nil
  show ?case by (simp add: frameRatios_def List.map_filter_simps)
next
  case (Cons r rs)
  have step: "frameRatios (r # rs) =
      (case (normalized_bolus_vestibule_overlap r, normalized_vestibule r) of
         (Some overlap, Some vestibuleArea) \<Rightarrow>
            fst (adjustOperands overlap vestibuleArea)
              / snd (adjustOperands overlap vestibuleArea) # frameRatios rs
       | _ \<Rightarrow> frameRatios rs)"
    by (simp add: frameRatios_def List.map_filter_simps split: option.splits)
  show ?case
    unfolding step using Cons.IH [of "i + 1"]
    by (simp split: option.splits prod.splits)
qed

lemma max_list_Max:
  assumes "xs \<noteq> []"
  shows "max_list xs = Max (set xs)"
proof (cases xs)
  case Nil
  then show ?thesis using assms by simp
next
  case (Cons a l)
  then show ?thesis using Max.set_eq_fold [of a l] by simp
qed

lemma frameRatios_nonempty:
  assumes "\<exists>r \<in> set cycleData. normalized_bolus_vestibule_overlap r \<noteq> None
              \<and> normalized_vestibule r \<noteq> None"
  shows "frameRatios cycleData \<noteq> []"
  using assms
  by (induction cycleData)
     (auto simp: frameRatios_def List.map_filter_simps split: option.splits)

lemma nonNull_nonempty:
  "(\<exists>r \<in> set xs. f r \<noteq> None) \<Longrightarrow> nonNull f xs \<noteq> []"
  by (induction xs) (auto simp: nonNull_def List.map_filter_simps split: option.splits)

lemma set_slice_subset: "set (slice sf ef rows) \<subseteq> set rows"
  unfolding slice_def by (meson set_take_subset set_drop_subset subset_trans)

lemma computeAspiration_max:
  assumes "\<exists>r \<in> set cycleData. normalized_bolus_vestibule_overlap r \<noteq> None
              \<and> normalized_vestibule r \<noteq> None"
  shows "maxOverlapRatio (computeAspiration sf cycleData) = Some (Max (set (frameRatios cycleData)))
       \<and> aspirationRisk (computeAspiration sf cycleData)
           = Some (Max (set (frameRatios cycleData)) \<ge> 0.2)"
proof -
  have a: "nonNull normalized_bolus_vestibule_overlap cycleData \<noteq> []"
    using assms by (intro nonNull_nonempty) blast
  have b: "nonNull normalized_vestibule cycleData \<noteq> []"
    using assms by (intro nonNull_nonempty) blast
  have c: "frameRatios cycleData \<noteq> []" by (rule frameRatios_nonempty [OF assms])
  have d: "overlapLoop sf 0 cycleData \<noteq> []"
    using c overlapLoop_ratios [of sf 0 cycleData] by auto
  show ?thesis
    using a b c d
    by (simp add: computeAspiration_def Let_def overlapLoop_ratios max_list_Max
        aspirationThreshold_def)
qed

text \<open>
  Rows written by \<^verbatim>\<open>processAdvancedData\<close> carry a standardized pharynx area whenever they
  carry a normalized vestibule area.
\<close>

lemma applyZScores_consistent:
  assumes "normalized_vestibule r \<noteq> None \<longrightarrow> normalized_pharynx r \<noteq> None"
  shows "normalized_vestibule (applyZScores a d r) \<noteq> None
           \<longrightarrow> zscore_pharynx (applyZScores a d r) \<noteq> None"
  using assms by (auto simp: applyZScores_def areaZScore_def split: option.splits)

lemma normalizeFrame_consistent:
  "normalized_vestibule (normalizeFrame sm ref index a) \<noteq> None
     \<longrightarrow> normalized_pharynx (normalizeFrame sm ref index a) \<noteq> None"
  by (simp add: normalizeFrame_def Let_def split: option.splits)

lemma processAdvancedData_rows_consistent:
  "\<forall>r \<in> set (processedData (processAdvancedData areas ref)).
     normalized_vestibule r \<noteq> None \<longrightarrow> zscore_pharynx r \<noteq> None"
proof
  fix r
  assume "r \<in> set (processedData (processAdvancedData areas ref))"
  then obtain st d r0 where r: "r = applyZScores st d r0"
    and "r0 \<in> set (normalizedRows areas ref)"
    by (auto simp: processAdvancedData_def Let_def)
  then obtain i a where "r0 = normalizeFrame (smoothAll areas) ref i a"
    by (auto simp: normalizedRows_def)
  then have "normalized_vestibule r0 \<noteq> None \<longrightarrow> normalized_pharynx r0 \<noteq> None"
    using normalizeFrame_consistent by simp
  then show "normalized_vestibule r \<noteq> None \<longrightarrow> zscore_pharynx r \<noteq> None"
    unfolding r by (rule applyZScores_consistent)
qed

text \<open>
  C5: for a cycle with at least one frame in which the normalized overlap and the
  normalized vestibule area are both present, the reported maximum is the largest
  per-frame adjusted ratio of the cycle, and \<^verbatim>\<open>aspirationRisk\<close> is true exactly when that
  maximum is at least 0.2. The rows are those of the pipeline: a row with a normalized
  vestibule area has a standardized pharynx area, which
  \<open>processAdvancedData_rows_consistent\<close> proves of every row \<^verbatim>\<open>processAdvancedData\<close>
  writes.
\<close>

theorem aspiration_risk_threshold:
  assumes "\<forall>r \<in> set rows. normalized_vestibule r \<noteq> None \<longrightarrow> zscore_pharynx r \<noteq> None"
    and "\<exists>r \<in> set (slice sf ef rows). normalized_bolus_vestibule_overlap r \<noteq> None
              \<and> normalized_vestibule r \<noteq> None"
  shows "\<exists>p. extractCycleParameters sf ef rows n = Parameters p
           \<and> frameRatios (slice sf ef rows) \<noteq> []
           \<and> maxOverlapRatio (aspiration p) = Some (Max (set (frameRatios (slice sf ef rows))))
           \<and> aspirationRisk (aspiration p)
               = Some (Max (set (frameRatios (slice sf ef rows))) \<ge> 0.2)"
proof -
  from assms(2) obtain r where r: "r \<in> set (slice sf ef rows)"
    and v: "normalized_vestibule r \<noteq> None" by blast
  from r have "r \<in> set rows" using set_slice_subset [of sf ef rows] by (rule subsetD [rotated])
  with assms(1) v have "zscore_pharynx r \<noteq> None" by (simp del: not_None_eq)
  with r have "\<exists>r \<in> set (slice sf ef rows). zscore_pharynx r \<noteq> None" by (rule bexI [rotated])
  then have ne: "nonNull zscore_pharynx (slice sf ef rows) \<noteq> []" by (rule nonNull_nonempty)
  let ?p = "\<lparr> pcr = computePCR (nonNull zscore_pharynx (slice sf ef rows)),
         aspiration = computeAspiration sf (slice sf ef rows),
         hyb = computeHYB sf rows n (slice sf ef rows),
         ues = computeUES sf rows n (slice sf ef rows),
         lvc = computeLVC sf rows n (slice sf ef rows) \<rparr>"
  have e: "extractCycleParameters sf ef rows n = Parameters ?p" by (rule extract_full [OF ne])
  have a: "aspiration ?p = computeAspiration sf (slice sf ef rows)" by simp
  show ?thesis
    apply (rule exI [of _ ?p])
    unfolding a
    using e computeAspiration_max [OF assms(2), of sf] frameRatios_nonempty [OF assms(2)]
    by (intro conjI) (rule e, assumption, (erule conjunct1), (erule conjunct2))
qed

lemma thresholdRows_ratios:
  "frameRatios (slice 0 1 (thresholdRows x)) = [0.1, fst (adjustOperands x 1) / snd (adjustOperands x 1)]"
  by (simp add: thresholdRows_def blankRow_def slice_def frameRatios_def List.map_filter_simps
      adjustOperands_def)

text \<open>A maximum ratio of exactly 0.2 is flagged.\<close>

theorem aspiration_risk_threshold_witness:
  "(\<exists>r \<in> set (slice 0 1 (thresholdRows 0.2)).
         normalized_bolus_vestibule_overlap r \<noteq> None \<and> normalized_vestibule r \<noteq> None)
   \<and> Max (set (frameRatios (slice 0 1 (thresholdRows 0.2)))) = 0.2
   \<and> (\<exists>p. extractCycleParameters 0 1 (thresholdRows 0.2) 1 = Parameters p
         \<and> maxOverlapRatio (aspiration p) = Some 0.2
         \<and> aspirationRisk (aspiration p) = Some True)"
proof -
  have inv: "\<forall>r \<in> set (thresholdRows 0.2).
      normalized_vestibule r \<noteq> None \<longrightarrow> zscore_pharynx r \<noteq> None"
    by (simp add: thresholdRows_def blankRow_def del: not_None_eq)
  have ex: "\<exists>r \<in> set (slice 0 1 (thresholdRows 0.2)).
         normalized_bolus_vestibule_overlap r \<noteq> None \<and> normalized_vestibule r \<noteq> None"
    by (simp add: thresholdRows_def blankRow_def slice_def del: not_None_eq)
  have m: "Max (set (frameRatios (slice 0 1 (thresholdRows 0.2)))) = 0.2"
    unfolding thresholdRows_ratios by (simp add: adjustOperands_def)
  have main: "\<exists>p. extractCycleParameters 0 1 (thresholdRows 0.2) 1 = Parameters p
         \<and> maxOverlapRatio (aspiration p) = Some 0.2
         \<and> aspirationRisk (aspiration p) = Some True"
    using aspiration_risk_threshold [OF inv ex, of 1] unfolding m by auto
  show ?thesis using ex m main by (intro conjI)
qed

text \<open>A maximum ratio of 0.199999 is not flagged.\<close>

lemma aspiration_risk_below_threshold:
  "\<exists>p. extractCycleParameters 0 1 (thresholdRows 0.199999) 1 = Parameters p
         \<and> maxOverlapRatio (aspiration p) = Some 0.199999
         \<and> aspirationRisk (aspiration p) = Some False"
proof -
  have inv: "\<forall>r \<in> set (thresholdRows 0.199999).
      normalized_vestibule r \<noteq> None \<longrightarrow> zscore_pharynx r \<noteq> None"
    by (simp add: thresholdRows_def blankRow_def del: not_None_eq)
  have ex: "\<exists>r \<in> set (slice 0 1 (thresholdRows 0.199999)).
         normalized_bolus_vestibule_overlap r \<noteq> None \<and> normalized_vestibule r \<noteq> None"
    by (simp add: thresholdRows_def blankRow_def slice_def del: not_None_eq)
  have m: "Max (set (frameRatios (slice 0 1 (thresholdRows 0.199999)))) = 0.199999"
    unfolding thresholdRows_ratios by (simp add: adjustOperands_def)
  have "\<exists>p. extractCycleParameters 0 1 (thresholdRows 0.199999) 1 = Parameters p
           \<and> frameRatios (slice 0 1 (thresholdRows 0.199999)) \<noteq> []
           \<and> maxOverlapRatio (aspiration p)
               = Some (Max (set (frameRatios (slice 0 1 (thresholdRows 0.199999)))))
           \<and> aspirationRisk (aspiration p)
               = Some (Max (set (frameRatios (slice 0 1 (thresholdRows 0.199999)))) \<ge> 0.2)"
    using computeAspiration_max [OF ex] frameRatios_nonempty [OF ex]
    by (simp add: extract_full thresholdRows_def blankRow_def slice_def nonNull_def
        List.map_filter_simps)
  then show ?thesis unfolding m by auto
qed

subsection \<open>Ordering and separation of the detected cycles\<close>

lemma cycleStep_invariant:
  assumes "cycleInvariant st"
  shows "cycleInvariant (cycleStep smoothed ds rows ip st)"
proof -
  obtain i peak where ip: "ip = (i, peak)" by (cases ip)
  obtain cs l where st: "st = (cs, l)" by (cases st)
  show ?thesis
    using assms unfolding ip st
    by (auto simp: cycleStep_def cycleInvariant_def Let_def sorted_wrt_append)
qed

lemma fold_cycleStep_invariant:
  "cycleInvariant st \<Longrightarrow> cycleInvariant (fold (cycleStep smoothed ds rows) ips st)"
  by (induction ips arbitrary: st) (simp_all add: cycleStep_invariant)

lemma cyclesOf_invariant:
  "\<exists>l. cycleInvariant (cyclesOf (detectSwallowingCycles z rows mph mcl), l)"
proof (cases "length z < mcl")
  case True
  then show ?thesis
    by (simp add: detectSwallowingCycles_def cyclesOf_def cycleInvariant_def)
next
  case False
  let ?sm = "savitzkyGolayFilter z 5"
  let ?st = "fold (cycleStep ?sm (firstDifferences ?sm) rows)
               (enumerate 0 (filterPeaks ?sm mcl (detectPeaks ?sm mph))) ([], - 1)"
  have "cycleInvariant ([], - 1)" by (simp add: cycleInvariant_def)
  then have "cycleInvariant ?st" by (rule fold_cycleStep_invariant)
  then have "cycleInvariant (fst ?st, snd ?st)" by simp
  moreover have "cyclesOf (detectSwallowingCycles z rows mph mcl) = fst ?st"
    using False by (simp add: detectSwallowingCycles_def cyclesOf_def Let_def)
  ultimately show ?thesis by metis
qed

text \<open>
  C1: in the list of cycles returned by \<^verbatim>\<open>detectSwallowingCycles\<close>, for any driver
  series, rows and thresholds, every cycle has \<open>startFrame < peakFrame < endFrame\<close>,
  each cycle ends before the next one starts, and the peak frames increase along the list.
\<close>

theorem cycles_ordered_and_disjoint:
  "(\<forall>c \<in> set (cyclesOf (detectSwallowingCycles z rows mph mcl)).
       startFrame c < peakFrame c \<and> peakFrame c < endFrame c)
   \<and> (\<forall>i. i + 1 < length (cyclesOf (detectSwallowingCycles z rows mph mcl)) \<longrightarrow>
         endFrame (cyclesOf (detectSwallowingCycles z rows mph mcl) ! i)
           < startFrame (cyclesOf (detectSwallowingCycles z rows mph mcl) ! (i + 1)))
   \<and> sorted_wrt (\<lambda>a b. peakFrame a < peakFrame b)
        (cyclesOf (detectSwallowingCycles z rows mph mcl))"
proof -
  let ?cs = "cyclesOf (detectSwallowingCycles z rows mph mcl)"
  obtain l where inv: "cycleInvariant (?cs, l)" using cyclesOf_invariant by blast
  have valid: "\<forall>c \<in> set ?cs. startFrame c < peakFrame c \<and> peakFrame c < endFrame c"
    using inv by (simp add: cycleInvariant_def)
  have chain: "sorted_wrt (\<lambda>a b. endFrame a < startFrame b) ?cs"
    using inv by (simp add: cycleInvariant_def)
  have consecutive: "\<forall>i. i + 1 < length ?cs \<longrightarrow> endFrame (?cs ! i) < startFrame (?cs ! (i + 1))"
    using sorted_wrt_nth_less [OF chain] by simp
  have peaks: "sorted_wrt (\<lambda>a b. peakFrame a < peakFrame b) ?cs"
  proof (rule sorted_wrt_mono_rel [OF _ chain])
    fix a b
    assume a: "a \<in> set ?cs" and b: "b \<in> set ?cs" and ab: "endFrame a < startFrame b"
    from valid a have "peakFrame a < endFrame a" by blast
    moreover from valid b have "startFrame b < peakFrame b" by blast
    ultimately show "peakFrame a < peakFrame b" using ab by linarith
  qed
  from valid consecutive peaks show ?thesis by blast
qed

text \<open>
  The example series, evaluated: the smoothed series has the two bumps spread over five
  frames each, and two cycles are accepted, frames 2 to 8 and frames 17 to 23.
\<close>

lemma offsets: "[- 1 .. 2 :: int] = [- 1, 0, 1, 2]"
  by (simp add: upto.simps)

lemma peaks_of_bumps:
  fixes s1 s2 s3 :: real
  assumes "0.02 < s1" "s1 < s2" "s2 < s3" "0.3 < s3"
    and sm: "sm = [0, 0, 0, s1, s2, s3, s2, s1, 0, 0, 0, 0, 0, 0, 0, 0, 0, 0, s1, s2, s3, s2, s1, 0, 0]"
  shows "detectPeaks sm 0.3 = [5, 20]"
  using assms(1-4) unfolding sm
  by (simp add: detectPeaks_def isPeak_def windowSize_def numeral_2_eq_2 [symmetric] upt_conv_Cons)

lemma filter_of_bumps:
  fixes s1 s2 s3 :: real
  assumes sm: "sm = [0, 0, 0, s1, s2, s3, s2, s1, 0, 0, 0, 0, 0, 0, 0, 0, 0, 0, s1, s2, s3, s2, s1, 0, 0]"
  shows "filterPeaks sm 15 [5, 20] = [5, 20]"
  unfolding sm
  by (simp add: filterPeaks_def numeral_2_eq_2 [symmetric] upt_conv_Cons)

lemma diffs_of_bumps:
  fixes s1 s2 s3 :: real
  assumes sm: "sm = [0, 0, 0, s1, s2, s3, s2, s1, 0, 0, 0, 0, 0, 0, 0, 0, 0, 0, s1, s2, s3, s2, s1, 0, 0]"
  shows "firstDifferences sm = [0, 0, s1, s2 - s1, s3 - s2, s2 - s3, s1 - s2, - s1, 0, 0, 0, 0, 0, 0, 0, 0, 0,
     s1, s2 - s1, s3 - s2, s2 - s3, s1 - s2, - s1, 0]"
  unfolding sm
  by (simp add: firstDifferences_def numeral_2_eq_2 [symmetric] upt_conv_Cons)

lemma cycles_of_bumps:
  fixes s1 s2 s3 :: real
  assumes "0.02 < s1" "s1 < s2" "s2 < s3" "0.3 < s3"
    and sm: "sm = [0, 0, 0, s1, s2, s3, s2, s1, 0, 0, 0, 0, 0, 0, 0, 0, 0, 0, s1, s2, s3, s2, s1, 0, 0]"
    and ds: "ds = [0, 0, s1, s2 - s1, s3 - s2, s2 - s3, s1 - s2, - s1, 0, 0, 0, 0, 0, 0, 0, 0, 0,
     s1, s2 - s1, s3 - s2, s2 - s3, s1 - s2, - s1, 0]"
  shows "map (\<lambda>c. (cycleNumber c, startFrame c, peakFrame c, endFrame c))
       (fst (fold (cycleStep sm ds rows) (enumerate 0 [5, 20]) ([], - 1)))
     = [(1, 2, 5, 8), (2, 17, 20, 23)]"
  using assms(1-4) unfolding sm ds
  by (simp add: cycleStep_def firstStart_def laterStart_def findEnd_def Let_def numeral_2_eq_2 [symmetric] upt_conv_Cons)


lemma smoothed_bumps:
  "\<exists>s1 s2 s3 :: real. 0.02 < s1 \<and> s1 < s2 \<and> s2 < s3 \<and> 0.3 < s3
     \<and> savitzkyGolayFilter twoBumps 5 =
         [0, 0, 0, s1, s2, s3, s2, s1, 0, 0, 0, 0, 0, 0, 0, 0, 0, 0, s1, s2, s3, s2, s1, 0, 0]"
proof -
  define a :: real where "a = exp (- (1 / 8))"
  define b :: real where "b = exp (- (1 / 2))"
  define W :: real where "W = 2 * b + (2 * a + 1)"
  have a1: "a < 1" unfolding a_def by simp
  have ba: "b < a" unfolding a_def b_def by simp
  have b0: "1 / 2 \<le> b" using exp_ge_add_one_self [of "- (1 / 2)"] unfolding b_def by simp
  have W0: "0 < W" and W5: "W < 5" using a1 ba b0 unfolding W_def by simp_all
  have f1: "0.02 < 2 * b / W"
  proof -
    have "0.02 * W < 1" using W5 by simp
    also have "1 \<le> 2 * b" using b0 by simp
    finally show ?thesis using W0 by (simp add: pos_less_divide_eq)
  qed
  have f2: "2 * b / W < 2 * a / W" using ba W0 by (simp add: divide_strict_right_mono)
  have f3: "2 * a / W < 2 / W" using a1 W0 by (simp add: divide_strict_right_mono)
  have f4: "0.3 < 2 / W"
  proof -
    have "0.3 * W < 2" using W5 by simp
    then show ?thesis using W0 by (simp add: pos_less_divide_eq)
  qed
  have sm: "savitzkyGolayFilter twoBumps 5 =
         [0, 0, 0, 2 * b / W, 2 * a / W, 2 / W, 2 * a / W, 2 * b / W, 0, 0, 0, 0, 0, 0, 0, 0, 0,
          0, 2 * b / W, 2 * a / W, 2 / W, 2 * a / W, 2 * b / W, 0, 0]"
    unfolding W_def a_def b_def
    by (simp add: savitzkyGolayFilter_def Let_def weight_def twoBumps_def offsets)
  from f1 f2 f3 f4 sm show ?thesis by blast
qed

lemma detected_bumps:
  "map (\<lambda>c. (cycleNumber c, startFrame c, peakFrame c, endFrame c))
     (cyclesOf (detectSwallowingCycles twoBumps rows 0.3 15))
   = [(1, 2, 5, 8), (2, 17, 20, 23)]"
proof -
  obtain s1 s2 s3 :: real where f: "0.02 < s1" "s1 < s2" "s2 < s3" "0.3 < s3"
    and sm: "savitzkyGolayFilter twoBumps 5 =
         [0, 0, 0, s1, s2, s3, s2, s1, 0, 0, 0, 0, 0, 0, 0, 0, 0, 0, s1, s2, s3, s2, s1, 0, 0]"
    using smoothed_bumps by blast
  have len: "\<not> length twoBumps < 15" by (simp add: twoBumps_def)
  have "cyclesOf (detectSwallowingCycles twoBumps rows 0.3 15) =
     fst (fold (cycleStep (savitzkyGolayFilter twoBumps 5)
                  (firstDifferences (savitzkyGolayFilter twoBumps 5)) rows)
            (enumerate 0 (filterPeaks (savitzkyGolayFilter twoBumps 5) 15
               (detectPeaks (savitzkyGolayFilter twoBumps 5) 0.3))) ([], - 1))"
    using len by (simp add: detectSwallowingCycles_def cyclesOf_def Let_def)
  also have "map (\<lambda>c. (cycleNumber c, startFrame c, peakFrame c, endFrame c)) \<dots>
      = [(1, 2, 5, 8), (2, 17, 20, 23)]"
    unfolding peaks_of_bumps [OF f sm] filter_of_bumps [OF sm]
    by (rule cycles_of_bumps [OF f sm diffs_of_bumps [OF sm]])
  finally show ?thesis .
qed


theorem cycles_ordered_and_disjoint_witness:
  "map (\<lambda>c. (cycleNumber c, startFrame c, peakFrame c, endFrame c))
     (cyclesOf (detectSwallowingCycles twoBumps [] 0.3 15))
   = [(1, 2, 5, 8), (2, 17, 20, 23)]
   \<and> startFrame (cyclesOf (detectSwallowingCycles twoBumps [] 0.3 15) ! 0)
       < peakFrame (cyclesOf (detectSwallowingCycles twoBumps [] 0.3 15) ! 0)
   \<and> peakFrame (cyclesOf (detectSwallowingCycles twoBumps [] 0.3 15) ! 0)
       < endFrame (cyclesOf (detectSwallowingCycles twoBumps [] 0.3 15) ! 0)
   \<and> endFrame (cyclesOf (detectSwallowingCycles twoBumps [] 0.3 15) ! 0)
       < startFrame (cyclesOf (detectSwallowingCycles twoBumps [] 0.3 15) ! 1)
   \<and> startFrame (cyclesOf (detectSwallowingCycles twoBumps [] 0.3 15) ! 1)
       < peakFrame (cyclesOf (detectSwallowingCycles twoBumps [] 0.3 15) ! 1)
   \<and> peakFrame (cyclesOf (detectSwallowingCycles twoBumps [] 0.3 15) ! 1)
       < endFrame (cyclesOf (detectSwallowingCycles twoBumps [] 0.3 15) ! 1)
   \<and> peakFrame (cyclesOf (detectSwallowingCycles twoBumps [] 0.3 15) ! 0)
       < peakFrame (cyclesOf (detectSwallowingCycles twoBumps [] 0.3 15) ! 1)"
proof -
  let ?cs = "cyclesOf (detectSwallowingCycles twoBumps [] 0.3 15)"
  have m: "map (\<lambda>c. (cycleNumber c, startFrame c, peakFrame c, endFrame c)) ?cs
      = [(1, 2, 5, 8), (2, 17, 20, 23)]"
    by (rule detected_bumps)
  have "length (map (\<lambda>c. (cycleNumber c, startFrame c, peakFrame c, endFrame c)) ?cs) = 2"
    unfolding m by simp
  then have len: "length ?cs = 2" by simp
  then have mem: "?cs ! 0 \<in> set ?cs" "?cs ! 1 \<in> set ?cs" by simp_all
  note main = cycles_ordered_and_disjoint [of twoBumps "[]" "0.3" 15]
  from main have valid: "\<forall>c \<in> set ?cs. startFrame c < peakFrame c \<and> peakFrame c < endFrame c"
    by (rule conjunct1)
  from main have consecutive:
    "\<forall>i. i + 1 < length ?cs \<longrightarrow> endFrame (?cs ! i) < startFrame (?cs ! (i + 1))"
    by (rule conjunct1 [OF conjunct2])
  from main have peaks: "sorted_wrt (\<lambda>a b. peakFrame a < peakFrame b) ?cs"
    by (rule conjunct2 [OF conjunct2])
  have v0: "startFrame (?cs ! 0) < peakFrame (?cs ! 0)" "peakFrame (?cs ! 0) < endFrame (?cs ! 0)"
    using valid mem(1) by blast+
  have v1: "startFrame (?cs ! 1) < peakFrame (?cs ! 1)" "peakFrame (?cs ! 1) < endFrame (?cs ! 1)"
    using valid mem(2) by blast+
  have c01: "endFrame (?cs ! 0) < startFrame (?cs ! 1)"
    using consecutive [rule_format, of 0] len by simp
  have p01: "peakFrame (?cs ! 0) < peakFrame (?cs ! 1)"
    using sorted_wrt_nth_less [OF peaks, of 0 1] len by simp
  from m v0 v1 c01 p01 show ?thesis by (intro conjI)
qed

subsection \<open>Grouped standardization\<close>

lemma sum_standardized:
  "sum_list (map (\<lambda>x. (x - m) / s) xs) = (sum_list xs - real (length xs) * m) / (s :: real)"
  by (induction xs) (simp_all add: algebra_simps add_divide_distrib diff_divide_distrib)

lemma sum_squares_standardized:
  "sum_list (map (\<lambda>x. ((x - m) / s) ^ 2) xs) = sum_list (map (\<lambda>x. (x - m) ^ 2) xs) / (s :: real) ^ 2"
  by (induction xs) (simp_all add: power_divide add_divide_distrib)

lemma varianceOf_nonneg: "0 \<le> varianceOf vs"
  unfolding varianceOf_def
  by (intro divide_nonneg_nonneg sum_list_nonneg) auto

lemma standardized_mean_stddev:
  assumes "0 < varianceOf vs"
  shows "meanOf (map (standardize vs) vs) = 0"
    and "sqrt (varianceOf (map (standardize vs) vs)) = 1"
proof -
  have n: "vs \<noteq> []" using assms by (auto simp: varianceOf_def)
  then have len: "0 < real (length vs)" by simp
  have s: "0 < sqrt (varianceOf vs)" using assms by simp
  have sum0: "sum_list (map (standardize vs) vs) = 0"
    unfolding standardize_def sum_standardized using len by (simp add: meanOf_def)
  then show m0: "meanOf (map (standardize vs) vs) = 0" by (simp add: meanOf_def)
  have "varianceOf (map (standardize vs) vs)
      = sum_list (map (\<lambda>x. (standardize vs x) ^ 2) vs) / real (length vs)"
    unfolding varianceOf_def m0 by (simp add: comp_def)
  also have "\<dots> = sum_list (map (\<lambda>x. (x - meanOf vs) ^ 2) vs) / (sqrt (varianceOf vs)) ^ 2
                  / real (length vs)"
    unfolding standardize_def sum_squares_standardized ..
  also have "\<dots> = varianceOf vs / varianceOf vs"
    using varianceOf_nonneg [of vs] by (simp add: varianceOf_def)
  also have "\<dots> = 1" using assms by simp
  finally show "sqrt (varianceOf (map (standardize vs) vs)) = 1" by simp
qed


lemma nonNull_map_update:
  assumes "\<forall>r \<in> set rs. zf (g r) = map_option z (nf r)"
  shows "nonNull zf (map g rs) = map z (nonNull nf rs)"
  using assms
  by (induction rs) (auto simp: nonNull_def List.map_filter_simps split: option.splits)

lemma nonNull_map_same:
  assumes "\<forall>r \<in> set rs. nf (g r) = nf r"
  shows "nonNull nf (map g rs) = nonNull nf rs"
  using assms
  by (induction rs) (auto simp: nonNull_def List.map_filter_simps split: option.splits)

lemma normalizedRows_member:
  assumes "r \<in> set (normalizedRows areas ref)"
  shows "\<exists>index a. r = normalizeFrame (smoothAll areas) ref index a"
  using assms by (auto simp: normalizedRows_def)

lemma normalizeFrame_zscores:
  "zscore_bolus_pharynx_overlap (normalizeFrame sm ref index a) = None"
  "zscore_bolus_vestibule_overlap (normalizeFrame sm ref index a) = None"
  "zscore_pharynx (normalizeFrame sm ref index a) = None"
  "zscore_vestibule (normalizeFrame sm ref index a) = None"
  "zscore_bolus (normalizeFrame sm ref index a) = None"
  "zscore_hyoid_c4_distance (normalizeFrame sm ref index a) = None"
  "zscore_ues_length (normalizeFrame sm ref index a) = None"
  by (simp_all add: normalizeFrame_def Let_def split: option.splits)

lemma areaZScore_fresh:
  "areaZScore st v None = map_option (\<lambda>v. (v - mean st) / stdDev st) v"
  by (simp add: areaZScore_def split: option.splits)

lemma distanceZScore_fresh:
  "distanceZScore st v None = map_option (\<lambda>v. num_div (num_sub v (mean st)) (stdDev st)) v"
  by (simp add: distanceZScore_def split: option.splits)

lemma area_zscores_of_normalized:
  "groupValues areaZScoreNames (map (applyZScores ast dst) (normalizedRows areas ref))
     = map (\<lambda>v. (v - mean ast) / stdDev ast)
         (groupValues areaParameterNames (normalizedRows areas ref))"
proof -
  have "\<forall>r \<in> set (normalizedRows areas ref).
      zscore_bolus_pharynx_overlap (applyZScores ast dst r)
        = map_option (\<lambda>v. (v - mean ast) / stdDev ast) (normalized_bolus_pharynx_overlap r)
    \<and> zscore_bolus_vestibule_overlap (applyZScores ast dst r)
        = map_option (\<lambda>v. (v - mean ast) / stdDev ast) (normalized_bolus_vestibule_overlap r)
    \<and> zscore_pharynx (applyZScores ast dst r)
        = map_option (\<lambda>v. (v - mean ast) / stdDev ast) (normalized_pharynx r)
    \<and> zscore_vestibule (applyZScores ast dst r)
        = map_option (\<lambda>v. (v - mean ast) / stdDev ast) (normalized_vestibule r)
    \<and> zscore_bolus (applyZScores ast dst r)
        = map_option (\<lambda>v. (v - mean ast) / stdDev ast) (normalized_bolus r)"
  proof
    fix r assume "r \<in> set (normalizedRows areas ref)"
    then obtain index a where r: "r = normalizeFrame (smoothAll areas) ref index a"
      using normalizedRows_member by blast
    show "zscore_bolus_pharynx_overlap (applyZScores ast dst r)
        = map_option (\<lambda>v. (v - mean ast) / stdDev ast) (normalized_bolus_pharynx_overlap r)
    \<and> zscore_bolus_vestibule_overlap (applyZScores ast dst r)
        = map_option (\<lambda>v. (v - mean ast) / stdDev ast) (normalized_bolus_vestibule_overlap r)
    \<and> zscore_pharynx (applyZScores ast dst r)
        = map_option (\<lambda>v. (v - mean ast) / stdDev ast) (normalized_pharynx r)
    \<and> zscore_vestibule (applyZScores ast dst r)
        = map_option (\<lambda>v. (v - mean ast) / stdDev ast) (normalized_vestibule r)
    \<and> zscore_bolus (applyZScores ast dst r)
        = map_option (\<lambda>v. (v - mean ast) / stdDev ast) (normalized_bolus r)"
      unfolding r by (simp add: applyZScores_def normalizeFrame_zscores areaZScore_fresh)
  qed
  then have
    "nonNull zscore_bolus_pharynx_overlap (map (applyZScores ast dst) (normalizedRows areas ref))
       = map (\<lambda>v. (v - mean ast) / stdDev ast)
           (nonNull normalized_bolus_pharynx_overlap (normalizedRows areas ref))"
    "nonNull zscore_bolus_vestibule_overlap (map (applyZScores ast dst) (normalizedRows areas ref))
       = map (\<lambda>v. (v - mean ast) / stdDev ast)
           (nonNull normalized_bolus_vestibule_overlap (normalizedRows areas ref))"
    "nonNull zscore_pharynx (map (applyZScores ast dst) (normalizedRows areas ref))
       = map (\<lambda>v. (v - mean ast) / stdDev ast)
           (nonNull normalized_pharynx (normalizedRows areas ref))"
    "nonNull zscore_vestibule (map (applyZScores ast dst) (normalizedRows areas ref))
       = map (\<lambda>v. (v - mean ast) / stdDev ast)
           (nonNull normalized_vestibule (normalizedRows areas ref))"
    "nonNull zscore_bolus (map (applyZScores ast dst) (normalizedRows areas ref))
       = map (\<lambda>v. (v - mean ast) / stdDev ast)
           (nonNull normalized_bolus (normalizedRows areas ref))"
    by (blast intro: nonNull_map_update)+
  then show ?thesis
    by (simp add: groupValues_def areaZScoreNames_def areaParameterNames_def)
qed

lemma distance_zscores_of_normalized:
  "groupValues distanceZScoreNames (map (applyZScores ast dst) (normalizedRows areas ref))
     = map (\<lambda>v. num_div (num_sub v (mean dst)) (stdDev dst))
         (groupValues distanceParameterNames (normalizedRows areas ref))"
proof -
  have "\<forall>r \<in> set (normalizedRows areas ref).
      zscore_hyoid_c4_distance (applyZScores ast dst r)
        = map_option (\<lambda>v. num_div (num_sub v (mean dst)) (stdDev dst))
            (normalized_hyoid_c4_distance r)
    \<and> zscore_ues_length (applyZScores ast dst r)
        = map_option (\<lambda>v. num_div (num_sub v (mean dst)) (stdDev dst))
            (normalized_ues_length r)"
  proof
    fix r assume "r \<in> set (normalizedRows areas ref)"
    then obtain index a where r: "r = normalizeFrame (smoothAll areas) ref index a"
      using normalizedRows_member by blast
    show "zscore_hyoid_c4_distance (applyZScores ast dst r)
        = map_option (\<lambda>v. num_div (num_sub v (mean dst)) (stdDev dst))
            (normalized_hyoid_c4_distance r)
    \<and> zscore_ues_length (applyZScores ast dst r)
        = map_option (\<lambda>v. num_div (num_sub v (mean dst)) (stdDev dst))
            (normalized_ues_length r)"
      unfolding r by (simp add: applyZScores_def normalizeFrame_zscores distanceZScore_fresh)
  qed
  then have
    "nonNull zscore_hyoid_c4_distance (map (applyZScores ast dst) (normalizedRows areas ref))
       = map (\<lambda>v. num_div (num_sub v (mean dst)) (stdDev dst))
           (nonNull normalized_hyoid_c4_distance (normalizedRows areas ref))"
    "nonNull zscore_ues_length (map (applyZScores ast dst) (normalizedRows areas ref))
       = map (\<lambda>v. num_div (num_sub v (mean dst)) (stdDev dst))
           (nonNull normalized_ues_length (normalizedRows areas ref))"
    by (blast intro: nonNull_map_update)+
  then show ?thesis
    by (simp add: groupValues_def distanceZScoreNames_def distanceParameterNames_def)
qed

lemma normalized_values_kept:
  "groupValues areaParameterNames (map (applyZScores ast dst) rs)
     = groupValues areaParameterNames rs"
  "groupValues distanceParameterNames (map (applyZScores ast dst) rs)
     = groupValues distanceParameterNames rs"
  by (simp_all add: groupValues_def areaParameterNames_def distanceParameterNames_def
      nonNull_map_same applyZScores_def)


lemma num_sum_numbers:
  "fold (\<lambda>v sum. num_add sum v) (map Num xs) (Num a) = Num (a + sum_list xs)"
  by (induction xs arbitrary: a) (simp_all add: add.assoc)

lemma num_meanOf_numbers:
  "xs \<noteq> [] \<Longrightarrow> num_meanOf (map Num xs) = Num (meanOf xs)"
  by (simp add: num_meanOf_def num_sum_def num_sum_numbers meanOf_def)

lemma num_varianceOf_numbers:
  assumes "xs \<noteq> []"
  shows "num_varianceOf (map Num xs) = Num (varianceOf xs)"
proof -
  have e: "map (\<lambda>v. let d = num_sub v (Num (meanOf xs)) in num_mul d d) (map Num xs)
      = map Num (map (\<lambda>v. (v - meanOf xs) ^ 2) xs)"
    by (simp add: Let_def power2_eq_square)
  show ?thesis
    unfolding num_varianceOf_def num_meanOf_numbers [OF assms] e num_sum_def num_sum_numbers
    using assms by (simp add: varianceOf_def)
qed

text \<open>On numbers the two embeddings of \<^verbatim>\<open>calculateGroupZScore\<close> agree.\<close>

lemma num_calculateGroupZScore_numbers:
  "num_calculateGroupZScore (map Num xs)
     = \<lparr> mean = Num (mean (calculateGroupZScore xs)),
         stdDev = Num (stdDev (calculateGroupZScore xs)) \<rparr>"
proof (cases "xs = []")
  case True
  then show ?thesis by (simp add: num_calculateGroupZScore_def calculateGroupZScore_def)
next
  case False
  have "\<not> varianceOf xs < 0" using varianceOf_nonneg [of xs] by simp
  then show ?thesis
    using False
    by (simp add: num_calculateGroupZScore_def calculateGroupZScore_def Let_def
        num_meanOf_numbers num_varianceOf_numbers num_gt_def)
qed

lemma calculateGroupZScore_varied:
  assumes "0 < varianceOf vs"
  shows "calculateGroupZScore vs = \<lparr> mean = meanOf vs, stdDev = sqrt (varianceOf vs) \<rparr>"
proof -
  have "vs \<noteq> []" using assms by (auto simp: varianceOf_def)
  then show ?thesis using assms by (simp add: calculateGroupZScore_def Let_def)
qed

lemma short_series_unsmoothed: "length xs < 5 \<Longrightarrow> savitzkyGolayFilter xs 5 = xs"
  by (simp add: savitzkyGolayFilter_def)

lemma flat_normalized:
  "groupValues areaParameterNames (normalizedRows [flatArea] 1) = [0, 0, 0, 0, 0]"
  by (simp add: groupValues_def areaParameterNames_def normalizedRows_def normalizeFrame_def
      smoothAll_def short_series_unsmoothed flatArea_def c2c4LengthAt_def scaledLength_def
      nonNull_def List.map_filter_simps)

text \<open>
  C8 as stated fails when the pooled values of a group are all equal: the standard
  deviation 0 is replaced by 1, every standardized value is 0, and their pooled standard
  deviation is 0, not 1. The frame \<open>flatArea\<close> shows it for the area group.
\<close>

theorem pooled_stddev_counterexample:
  "groupValues areaZScoreNames (processedData (processAdvancedData [flatArea] 1)) = [0, 0, 0, 0, 0]
   \<and> sqrt (varianceOf (groupValues areaZScoreNames
               (processedData (processAdvancedData [flatArea] 1)))) \<noteq> 1"
proof -
  have st: "calculateGroupZScore [0, 0, 0, 0, 0] = \<lparr> mean = 0, stdDev = 1 \<rparr>"
    by (simp add: calculateGroupZScore_def meanOf_def varianceOf_def)
  have z: "groupValues areaZScoreNames (processedData (processAdvancedData [flatArea] 1))
      = [0, 0, 0, 0, 0]"
    by (simp add: processAdvancedData_def Let_def area_zscores_of_normalized flat_normalized st)
  show ?thesis unfolding z by (simp add: varianceOf_def meanOf_def)
qed

text \<open>
  C8, amended: when the pooled normalized values of the area group are not all equal
  (their population variance is positive), every standardized value of the group is
  \<open>(value - mean) / stddev\<close> with the mean and the population standard deviation of the
  pooled values, and the pooled mean of the standardized values is 0 and their pooled
  population standard deviation is 1. The same holds for the distance group when its
  pooled normalized values are all numbers and not all equal.
\<close>

theorem grouped_standardization:
  assumes "rows = processedData (processAdvancedData areas ref)"
  shows "(0 < varianceOf (groupValues areaParameterNames rows) \<longrightarrow>
            groupValues areaZScoreNames rows
              = map (standardize (groupValues areaParameterNames rows))
                  (groupValues areaParameterNames rows)
            \<and> meanOf (groupValues areaZScoreNames rows) = 0
            \<and> sqrt (varianceOf (groupValues areaZScoreNames rows)) = 1)
       \<and> (\<forall>ds. groupValues distanceParameterNames rows = map Num ds \<and> 0 < varianceOf ds \<longrightarrow>
            groupValues distanceZScoreNames rows = map Num (map (standardize ds) ds)
            \<and> meanOf (map (standardize ds) ds) = 0
            \<and> sqrt (varianceOf (map (standardize ds) ds)) = 1)"
proof (intro conjI impI allI)
  let ?nd = "normalizedRows areas ref"
  let ?A = "groupValues areaParameterNames ?nd"
  let ?D = "groupValues distanceParameterNames ?nd"
  have rows: "rows = map (applyZScores (calculateGroupZScore ?A) (num_calculateGroupZScore ?D)) ?nd"
    using assms by (simp add: processAdvancedData_def Let_def)
  have A: "groupValues areaParameterNames rows = ?A"
    and D: "groupValues distanceParameterNames rows = ?D"
    unfolding rows by (simp_all add: normalized_values_kept)
  {
    assume "0 < varianceOf (groupValues areaParameterNames rows)"
    then have v: "0 < varianceOf ?A" unfolding A .
    have "groupValues areaZScoreNames rows = map (standardize ?A) ?A"
      unfolding rows area_zscores_of_normalized calculateGroupZScore_varied [OF v]
      by (simp add: standardize_def)
    then show z: "groupValues areaZScoreNames rows
        = map (standardize (groupValues areaParameterNames rows))
            (groupValues areaParameterNames rows)"
      unfolding A .
    show "meanOf (groupValues areaZScoreNames rows) = 0"
      unfolding z A by (rule standardized_mean_stddev(1) [OF v])
    show "sqrt (varianceOf (groupValues areaZScoreNames rows)) = 1"
      unfolding z A by (rule standardized_mean_stddev(2) [OF v])
  }
  {
    fix ds
    assume "groupValues distanceParameterNames rows = map Num ds \<and> 0 < varianceOf ds"
    then have d: "?D = map Num ds" and v: "0 < varianceOf ds" unfolding D by simp_all
    have s: "sqrt (varianceOf ds) \<noteq> 0" using v by simp
    show "groupValues distanceZScoreNames rows = map Num (map (standardize ds) ds)"
      unfolding rows distance_zscores_of_normalized d num_calculateGroupZScore_numbers
        calculateGroupZScore_varied [OF v]
      using s by (simp add: standardize_def)
    show "meanOf (map (standardize ds) ds) = 0"
      by (rule standardized_mean_stddev(1) [OF v])
    show "sqrt (varianceOf (map (standardize ds) ds)) = 1"
      by (rule standardized_mean_stddev(2) [OF v])
  }
qed


lemma varied_normalized:
  "groupValues areaParameterNames (normalizedRows [variedArea] 1) = [0, 0, 0, 0, 5]"
  "groupValues distanceParameterNames (normalizedRows [variedArea] 1) = map Num [1, 3]"
  by (simp_all add: groupValues_def areaParameterNames_def distanceParameterNames_def
      normalizedRows_def normalizeFrame_def
      smoothAll_def short_series_unsmoothed variedArea_def c2c4LengthAt_def scaledLength_def
      nonNull_def List.map_filter_simps)

theorem grouped_standardization_witness:
  "0 < varianceOf (groupValues areaParameterNames
                     (processedData (processAdvancedData [variedArea] 1)))
   \<and> groupValues distanceParameterNames (processedData (processAdvancedData [variedArea] 1))
       = map Num [1, 3]
   \<and> 0 < varianceOf [1, 3]
   \<and> meanOf (groupValues areaZScoreNames
               (processedData (processAdvancedData [variedArea] 1))) = 0
   \<and> sqrt (varianceOf (groupValues areaZScoreNames
               (processedData (processAdvancedData [variedArea] 1)))) = 1
   \<and> groupValues distanceZScoreNames (processedData (processAdvancedData [variedArea] 1))
       = map Num (map (standardize [1, 3]) [1, 3])"
proof -
  let ?rows = "processedData (processAdvancedData [variedArea] 1)"
  have A: "groupValues areaParameterNames ?rows = [0, 0, 0, 0, 5]"
    by (simp add: processAdvancedData_def Let_def normalized_values_kept varied_normalized)
  have D: "groupValues distanceParameterNames ?rows = map Num [1, 3]"
    by (simp add: processAdvancedData_def Let_def normalized_values_kept varied_normalized)
  have vA: "0 < varianceOf (groupValues areaParameterNames ?rows)"
    unfolding A by (simp add: varianceOf_def meanOf_def)
  have vD: "0 < varianceOf [1, 3]"
    by (simp add: varianceOf_def meanOf_def)
  from grouped_standardization [OF refl, of "[variedArea]" 1] vA D vD
  show ?thesis by blast
qed

subsection \<open>Search limits of the landmark searches\<close>

text \<open>
  The rows of \<^verbatim>\<open>processedData\<close> never carry a \<^verbatim>\<open>cycleNumber\<close>, so \<^verbatim>\<open>allCycles\<close> is
  empty and both search limits keep the values of the cycle itself.
\<close>

lemma no_cycle_rows:
  assumes "\<forall>r \<in> set rows. row_cycleNumber r = None"
  shows "allCycles rows = []"
  using assms by (induction rows) (simp_all add: allCycles_def)

lemma search_limits_not_widened:
  assumes "\<forall>r \<in> set rows. row_cycleNumber r = None"
  shows "searchStartFrame rows n sf = int sf" and "searchEndFrame rows n initialEnd = initialEnd"
  by (simp_all add: searchStartFrame_def searchEndFrame_def no_cycle_rows [OF assms])

lemma processAdvancedData_rows_no_cycle:
  "\<forall>r \<in> set (processedData (processAdvancedData areas ref)). row_cycleNumber r = None"
  by (auto simp: processAdvancedData_def Let_def normalizedRows_def applyZScores_def
      normalizeFrame_def split: option.splits)

text \<open>
  The limits are used through \<open>searchStartInCycle\<close> and \<open>searchEndInCycle\<close>, which keep
  every index inside the samples of the cycle itself: a backward limit before the start of
  the cycle gives index 0, and no forward limit gives an index beyond the last sample.
\<close>

lemma backward_limit_clamped:
  "searchStart \<le> int sf \<Longrightarrow> searchStartInCycle searchStart sf = 0"
  by (simp add: searchStartInCycle_def)

lemma forward_limit_clamped:
  "searchEndInCycle len searchEnd sf \<le> int len - 1"
  by (simp add: searchEndInCycle_def)

lemma uesRows_no_cycle: "\<forall>r \<in> set uesRows. row_cycleNumber r = None"
  by (auto simp: uesRows_def blankRow_def)

lemma uesRows_slices:
  "nonNull zscore_ues_length (slice 17 23 uesRows) = map Num [2, 3, 4, 5, 4, 3, 2]"
  "nonNull zscore_ues_length (slice 2 8 uesRows) = map Num [3, 3, 3, 3, 3, 3, 3]"
  "nonNull zscore_ues_length (slice 8 23 uesRows)
     = map Num [3, 3, 3, 3, 3, 3, 2, 0, 1, 2, 3, 4, 5, 4, 3, 2]"
  "nonNull zscore_pharynx (slice 17 23 uesRows) = [0, 0, 0, 0, 0, 0, 0]"
  "nonNull zscore_pharynx (slice 2 8 uesRows) = [0, 0, 0, 0, 0, 0, 0]"
  by (simp_all add: uesRows_def uesSeries_def slice_def nonNull_def List.map_filter_simps
      enumerate_eq_zip upt_conv_Cons numeral_2_eq_2 [symmetric] blankRow_def)


lemmas landmark_eval =
  peakOf_def differences_def valleyBefore_def valleyAfter_def downfrom_def upto_incl_def
  searchStartInCycle_def searchEndInCycle_def item_def num_gt_def
  upt_conv_Cons numeral_2_eq_2 [symmetric] Let_def

lemma ues_second_cycle:
  "map_option (\<lambda>u. (UESO u, UES_peakFrame u, UESC u)) (computeUES 17 uesRows 2 (slice 17 23 uesRows))
     = Some (19, 20, 23)"
  by (simp add: computeUES_def uesRows_slices search_limits_not_widened [OF uesRows_no_cycle]
      landmark_eval)

lemma ues_first_cycle:
  "map_option (\<lambda>u. (UESO u, UES_peakFrame u, UESC u)) (computeUES 2 uesRows 1 (slice 2 8 uesRows))
     = Some (2, 2, 2)"
  by (simp add: computeUES_def uesRows_slices search_limits_not_widened [OF uesRows_no_cycle]
      landmark_eval)

text \<open>
  Had the search of the second cycle started at the end of the first cycle (frame 8), the
  slope test would have found the valley at frame \<open>8 + 7 = 15\<close>.
\<close>

lemma valley_in_widened_range:
  "valleyBefore (nonNull zscore_ues_length (slice 8 23 uesRows)) 0 (Num 5) 12 = (Num 0, 7)"
  by (simp add: uesRows_slices landmark_eval)


lemma cycles_of_bumps_params:
  fixes s1 s2 s3 :: real
  assumes "0.02 < s1" "s1 < s2" "s2 < s3" "0.3 < s3"
    and sm: "sm = [0, 0, 0, s1, s2, s3, s2, s1, 0, 0, 0, 0, 0, 0, 0, 0, 0, 0, s1, s2, s3, s2, s1, 0, 0]"
    and ds: "ds = [0, 0, s1, s2 - s1, s3 - s2, s2 - s3, s1 - s2, - s1, 0, 0, 0, 0, 0, 0, 0, 0, 0,
     s1, s2 - s1, s3 - s2, s2 - s3, s1 - s2, - s1, 0]"
  shows "map (\<lambda>c. (cycleNumber c, startFrame c, endFrame c, params c))
       (fst (fold (cycleStep sm ds rows) (enumerate 0 [5, 20]) ([], - 1)))
     = [(1, 2, 8, extractCycleParameters 2 8 rows 1),
        (2, 17, 23, extractCycleParameters 17 23 rows 2)]"
  using assms(1-4) unfolding sm ds
  by (simp add: cycleStep_def firstStart_def laterStart_def findEnd_def Let_def numeral_2_eq_2 [symmetric] upt_conv_Cons)

lemma detected_bumps_params:
  "map (\<lambda>c. (cycleNumber c, startFrame c, endFrame c, params c))
     (cyclesOf (detectSwallowingCycles twoBumps rows 0.3 15))
   = [(1, 2, 8, extractCycleParameters 2 8 rows 1),
      (2, 17, 23, extractCycleParameters 17 23 rows 2)]"
proof -
  obtain s1 s2 s3 :: real where f: "0.02 < s1" "s1 < s2" "s2 < s3" "0.3 < s3"
    and sm: "savitzkyGolayFilter twoBumps 5 =
         [0, 0, 0, s1, s2, s3, s2, s1, 0, 0, 0, 0, 0, 0, 0, 0, 0, 0, s1, s2, s3, s2, s1, 0, 0]"
    using smoothed_bumps by blast
  have len: "\<not> length twoBumps < 15" by (simp add: twoBumps_def)
  have "cyclesOf (detectSwallowingCycles twoBumps rows 0.3 15) =
     fst (fold (cycleStep (savitzkyGolayFilter twoBumps 5)
                  (firstDifferences (savitzkyGolayFilter twoBumps 5)) rows)
            (enumerate 0 (filterPeaks (savitzkyGolayFilter twoBumps 5) 15
               (detectPeaks (savitzkyGolayFilter twoBumps 5) 0.3))) ([], - 1))"
    using len by (simp add: detectSwallowingCycles_def cyclesOf_def Let_def)
  also have "map (\<lambda>c. (cycleNumber c, startFrame c, endFrame c, params c)) \<dots>
      = [(1, 2, 8, extractCycleParameters 2 8 rows 1),
         (2, 17, 23, extractCycleParameters 17 23 rows 2)]"
    unfolding peaks_of_bumps [OF f sm] filter_of_bumps [OF sm]
    by (rule cycles_of_bumps_params [OF f sm diffs_of_bumps [OF sm]])
  finally show ?thesis .
qed

text \<open>
  C2, evaluated on the example series with the rows \<open>uesRows\<close>: two cycles are detected,
  frames 2 to 8 and frames 17 to 23. For the second cycle the backward limit is its own
  start frame 17, not the end frame 8 of the first cycle, and the reported UESO is frame
  19, inside the cycle, although the valley of the UES length lies at frame 15, between
  the two cycles.
\<close>

theorem landmark_outside_cycle_not_found:
  "map (\<lambda>c. (cycleNumber c, startFrame c, endFrame c, uesoOf c))
     (cyclesOf (detectSwallowingCycles twoBumps uesRows 0.3 15))
     = [(1, 2, 8, Some 2), (2, 17, 23, Some 19)]
   \<and> searchStartFrame uesRows 2 17 = 17
   \<and> valleyBefore (nonNull zscore_ues_length (slice 8 23 uesRows)) 0 (Num 5) 12 = (Num 0, 7)"
proof -
  have e1: "extractCycleParameters 2 8 uesRows 1 =
     Parameters
       \<lparr> pcr = computePCR (nonNull zscore_pharynx (slice 2 8 uesRows)),
         aspiration = computeAspiration 2 (slice 2 8 uesRows),
         hyb = computeHYB 2 uesRows 1 (slice 2 8 uesRows),
         ues = computeUES 2 uesRows 1 (slice 2 8 uesRows),
         lvc = computeLVC 2 uesRows 1 (slice 2 8 uesRows) \<rparr>"
    by (rule extract_full) (simp add: uesRows_slices)
  have e2: "extractCycleParameters 17 23 uesRows 2 =
     Parameters
       \<lparr> pcr = computePCR (nonNull zscore_pharynx (slice 17 23 uesRows)),
         aspiration = computeAspiration 17 (slice 17 23 uesRows),
         hyb = computeHYB 17 uesRows 2 (slice 17 23 uesRows),
         ues = computeUES 17 uesRows 2 (slice 17 23 uesRows),
         lvc = computeLVC 17 uesRows 2 (slice 17 23 uesRows) \<rparr>"
    by (rule extract_full) (simp add: uesRows_slices)
  have u1: "map_option UESO (computeUES 2 uesRows 1 (slice 2 8 uesRows)) = Some 2"
    using ues_first_cycle by (cases "computeUES 2 uesRows 1 (slice 2 8 uesRows)") simp_all
  have u2: "map_option UESO (computeUES 17 uesRows 2 (slice 17 23 uesRows)) = Some 19"
    using ues_second_cycle by (cases "computeUES 17 uesRows 2 (slice 17 23 uesRows)") simp_all
  have r1: "(case extractCycleParameters 2 8 uesRows 1 of PCR_null \<Rightarrow> None
              | Parameters p \<Rightarrow> map_option UESO (ues p)) = Some 2"
    unfolding e1 using u1 by simp
  have r2: "(case extractCycleParameters 17 23 uesRows 2 of PCR_null \<Rightarrow> None
              | Parameters p \<Rightarrow> map_option UESO (ues p)) = Some 19"
    unfolding e2 using u2 by simp
  have "map (\<lambda>c. (cycleNumber c, startFrame c, endFrame c, uesoOf c))
          (cyclesOf (detectSwallowingCycles twoBumps uesRows 0.3 15))
      = map (\<lambda>(n, s, e, p). (n, s, e,
               case p of PCR_null \<Rightarrow> None | Parameters p \<Rightarrow> map_option UESO (ues p)))
          (map (\<lambda>c. (cycleNumber c, startFrame c, endFrame c, params c))
             (cyclesOf (detectSwallowingCycles twoBumps uesRows 0.3 15)))"
    by (simp add: uesoOf_def comp_def)
  also have "\<dots> = [(1, 2, 8, Some 2), (2, 17, 23, Some 19)]"
    unfolding detected_bumps_params using r1 r2 by simp
  finally have cycles: "map (\<lambda>c. (cycleNumber c, startFrame c, endFrame c, uesoOf c))
     (cyclesOf (detectSwallowingCycles twoBumps uesRows 0.3 15))
     = [(1, 2, 8, Some 2), (2, 17, 23, Some 19)]" .
  have limit: "searchStartFrame uesRows 2 17 = 17"
    using search_limits_not_widened(1) [OF uesRows_no_cycle, of 2 17] by simp
  from cycles limit valley_in_widened_range show ?thesis by (intro conjI)
qed


subsection \<open>Series smoothed after removing absent samples\<close>

lemmas frame_eval =
  normalizedRows_def normalizeFrame_def smoothAll_def short_series_unsmoothed
  c2c4LengthAt_def scaledLength_def nonNull_def List.map_filter_simps Let_def

lemma normalized_fields_kept:
  "map normalized_pharynx (processedData (processAdvancedData areas ref))
     = map normalized_pharynx (normalizedRows areas ref)"
  "map normalized_hyoid_c4_distance (processedData (processAdvancedData areas ref))
     = map normalized_hyoid_c4_distance (normalizedRows areas ref)"
  by (simp_all add: processAdvancedData_def Let_def applyZScores_def comp_def)

lemma zscore_hyoid_of_normalized:
  "map zscore_hyoid_c4_distance (processedData (processAdvancedData areas ref))
     = map (map_option
             (\<lambda>v. num_div
                    (num_sub v (mean (num_calculateGroupZScore
                       (groupValues distanceParameterNames (normalizedRows areas ref)))))
                    (stdDev (num_calculateGroupZScore
                       (groupValues distanceParameterNames (normalizedRows areas ref))))))
         (map normalized_hyoid_c4_distance (normalizedRows areas ref))"
proof -
  have "\<forall>r \<in> set (normalizedRows areas ref). zscore_hyoid_c4_distance r = None"
    using normalizedRows_member normalizeFrame_zscores(6) by metis
  then show ?thesis
    by (simp add: processAdvancedData_def Let_def applyZScores_def comp_def
        distanceZScore_fresh)
qed

text \<open>
  C3, evaluated on two frames of which the first has no hyoid-C4 distance: the smoothed
  hyoid series has one element for two frames, the normalized value of frame 0 is taken
  from the measurement of frame 1, the normalized value of frame 1 is NaN, and both
  standardized values are NaN.
\<close>

theorem compacted_series_misaligned:
  "hyoid_c4_distance (gapFrames ! 0) = None
   \<and> hyoid_c4_distance (gapFrames ! 1) = Some 5
   \<and> length gapFrames = 2
   \<and> s_hyoid_c4_distance (smoothAll gapFrames) = [5]
   \<and> map normalized_hyoid_c4_distance (processedData (processAdvancedData gapFrames 1))
       = [Some (Num 5), Some NaN]
   \<and> map zscore_hyoid_c4_distance (processedData (processAdvancedData gapFrames 1))
       = [Some NaN, Some NaN]"
proof -
  have n: "map normalized_hyoid_c4_distance (normalizedRows gapFrames 1) = [Some (Num 5), Some NaN]"
    "map normalized_ues_length (normalizedRows gapFrames 1) = [Some (Num 7), Some (Num 9)]"
    by (simp_all add: gapFrames_def frame_eval)
  have g: "groupValues distanceParameterNames (normalizedRows gapFrames 1)
      = [Num 5, NaN, Num 7, Num 9]"
    by (simp add: groupValues_def distanceParameterNames_def gapFrames_def frame_eval)
  have st: "num_calculateGroupZScore [Num 5, NaN, Num 7, Num 9] = \<lparr> mean = NaN, stdDev = Num 1 \<rparr>"
    by (simp add: num_calculateGroupZScore_def num_meanOf_def num_varianceOf_def num_sum_def
        num_gt_def Let_def)
  have z: "map zscore_hyoid_c4_distance (processedData (processAdvancedData gapFrames 1))
       = [Some NaN, Some NaN]"
    unfolding zscore_hyoid_of_normalized n g st by simp
  have k: "map normalized_hyoid_c4_distance (processedData (processAdvancedData gapFrames 1))
       = [Some (Num 5), Some NaN]"
    unfolding normalized_fields_kept by (rule n(1))
  have s: "s_hyoid_c4_distance (smoothAll gapFrames) = [5]"
    by (simp add: gapFrames_def frame_eval)
  have i: "hyoid_c4_distance (gapFrames ! 0) = None" "hyoid_c4_distance (gapFrames ! 1) = Some 5"
    "length gapFrames = 2"
    by (simp_all add: gapFrames_def)
  from i s k z show ?thesis by (intro conjI)
qed

text \<open>
  C7, evaluated on two frames of which the first has no calibration length: the frame is
  normalized all the same, with the scale \<open>2 / 4\<close> of the calibration length of frame 1.
\<close>

theorem uncalibrated_frame_normalized:
  "c2c4_length (calibrationGapFrames ! 0) = None
   \<and> c2c4_length (calibrationGapFrames ! 1) = Some 4
   \<and> map normalized_pharynx (processedData (processAdvancedData calibrationGapFrames 2))
       = [Some 1.5, Some 2]
   \<and> map normalized_hyoid_c4_distance (processedData (processAdvancedData calibrationGapFrames 2))
       = [Some (Num 1.5), Some (Num 1.25)]"
proof -
  have n: "map normalized_pharynx (normalizedRows calibrationGapFrames 2) = [Some 1.5, Some 2]"
    "map normalized_hyoid_c4_distance (normalizedRows calibrationGapFrames 2)
       = [Some (Num 1.5), Some (Num 1.25)]"
    by (simp_all add: calibrationGapFrames_def frame_eval)
  have k: "map normalized_pharynx (processedData (processAdvancedData calibrationGapFrames 2))
       = [Some 1.5, Some 2]"
    unfolding normalized_fields_kept by (rule n(1))
  have h: "map normalized_hyoid_c4_distance
             (processedData (processAdvancedData calibrationGapFrames 2))
       = [Some (Num 1.5), Some (Num 1.25)]"
    unfolding normalized_fields_kept by (rule n(2))
  have i: "c2c4_length (calibrationGapFrames ! 0) = None"
    "c2c4_length (calibrationGapFrames ! 1) = Some 4"
    by (simp_all add: calibrationGapFrames_def)
  from i k h show ?thesis by (intro conjI)
qed

subsection \<open>Parameters and their own series\<close>
















end
